theory Spec2Isabelle
  imports Main "HOL-Library.Word" "HOL-Library.AList"
begin

section \<open>CDN settings of a backend service (pkg/backends/features/cdn.go)\<close>

text \<open>
  The Go types used by \<^verbatim>\<open>cdn.go\<close> are declared in other packages
  (\<^verbatim>\<open>composite\<close>, \<^verbatim>\<open>utils\<close>, the BackendConfig API). The records below hold the fields
  that \<^verbatim>\<open>cdn.go\<close> reads and writes, under their Go names, and one more field per
  composite struct standing for all the fields the file never mentions. The Go zero value
  of those fields is \<open>0\<close> of class \<open>zero\<close>, which is what a struct literal leaves them at.

  A Go pointer that may be nil is an \<open>option\<close>; a slice is a \<open>string list option\<close>, so
  that the nil slice and the empty slice are different values, as they are for
  \<^verbatim>\<open>reflect.DeepEqual\<close>. With that, \<^verbatim>\<open>reflect.DeepEqual\<close> on two
  \<^verbatim>\<open>*BackendServiceCdnPolicy\<close> is HOL equality on the modelled values. An
  \<^verbatim>\<open>int64\<close> is a \<open>64 word\<close>.
\<close>

text \<open>The cache key policy of the BackendConfig (the pointer \<^verbatim>\<open>cdnConfig.CachePolicy\<close>).\<close>

record CacheKeyPolicyConfig =
  IncludeHost :: bool
  IncludeProtocol :: bool
  IncludeQueryString :: bool
  QueryStringBlacklist :: "string list option"
  QueryStringWhitelist :: "string list option"

text \<open>\<^verbatim>\<open>sp.BackendConfig.Spec.Cdn\<close>: the CDN section of a BackendConfig.\<close>

record CDNConfig =
  Enabled :: bool
  CachePolicy :: "CacheKeyPolicyConfig option"
  CacheMode :: "string option"
  RequestCoalescing :: "bool option"
  ServeWhileStaleSec :: "64 word option"

record BackendConfigSpec =
  Cdn :: "CDNConfig option"

record BackendConfig =
  Spec :: BackendConfigSpec

text \<open>
  \<^verbatim>\<open>utils.ServicePort\<close>. Every function of \<^verbatim>\<open>cdn.go\<close> reads
  \<^verbatim>\<open>sp.BackendConfig.Spec.Cdn\<close> first and unguarded, so a ServicePort is modelled with
  its BackendConfig present. \<^verbatim>\<open>sp.ID\<close> is only printed in a log line.
\<close>

record ServicePort =
  BackendConfig :: BackendConfig

text \<open>\<^verbatim>\<open>composite.CacheKeyPolicy\<close>; \<open>ckpOther\<close> stands for its remaining fields.\<close>

record 'k CacheKeyPolicy =
  IncludeHost :: bool
  IncludeProtocol :: bool
  IncludeQueryString :: bool
  QueryStringBlacklist :: "string list option"
  QueryStringWhitelist :: "string list option"
  ckpOther :: 'k

text \<open>\<^verbatim>\<open>composite.BackendServiceCdnPolicy\<close>; \<open>cdnOther\<close> stands for its remaining fields.\<close>

record ('p, 'k) BackendServiceCdnPolicy =
  CacheKeyPolicy :: "'k CacheKeyPolicy option"
  CacheMode :: string
  RequestCoalescing :: bool
  ServeWhileStale :: "64 word"
  cdnOther :: 'p

text \<open>
  \<^verbatim>\<open>meta.Version\<close> and \<^verbatim>\<open>meta.KeyType\<close> of k8s-cloud-provider are string types
  (the code converts them with \<^verbatim>\<open>string(...)\<close>, \<^verbatim>\<open>meta.Version("ga")\<close> and prints a
  scope with \<^verbatim>\<open>%s\<close>); their constants are the library's.
\<close>

type_synonym Version = string

definition VersionGA :: Version where "VersionGA = ''ga''"
definition VersionAlpha :: Version where "VersionAlpha = ''alpha''"
definition VersionBeta :: Version where "VersionBeta = ''beta''"

type_synonym KeyType = string

definition Zonal :: KeyType where "Zonal = ''zonal''"
definition Regional :: KeyType where "Regional = ''regional''"
definition Global :: KeyType where "Global = ''global''"

text \<open>
  \<^verbatim>\<open>composite.BackendService\<close>: the fields read or written by the files at hand;
  \<open>beOther\<close> stands for its remaining fields.
\<close>

record ('b, 'p, 'k) BackendService =
  Name :: string
  Scope :: KeyType
  Version :: Version
  EnableCDN :: bool
  CdnPolicy :: "('p, 'k) BackendServiceCdnPolicy option"
  beOther :: 'b

text \<open>A Go runtime panic. The only one \<^verbatim>\<open>cdn.go\<close> can raise is the nil dereference.\<close>

datatype fault = NilPointerDereference

text \<open>\<^verbatim>\<open>&composite.BackendService{}\<close>: every field at its zero value.\<close>

definition emptyBackendService :: "('b::zero, 'p, 'k) BackendService" where
  "emptyBackendService =
     \<lparr>Name = [], Scope = [], Version = [], EnableCDN = False, CdnPolicy = None, beOther = 0\<rparr>"

text \<open>
  \<^verbatim>\<open>&composite.BackendServiceCdnPolicy{CacheKeyPolicy: &composite.CacheKeyPolicy{}}\<close>
  followed by the five assignments of lines 56 to 60.
\<close>

definition newCdnPolicy ::
  "CacheKeyPolicyConfig \<Rightarrow> ('p::zero, 'k::zero) BackendServiceCdnPolicy" where
  "newCdnPolicy cacheKeyPolicy =
     \<lparr>CacheKeyPolicy = Some
        \<lparr>IncludeHost = CacheKeyPolicyConfig.IncludeHost cacheKeyPolicy,
         IncludeProtocol = CacheKeyPolicyConfig.IncludeProtocol cacheKeyPolicy,
         IncludeQueryString = CacheKeyPolicyConfig.IncludeQueryString cacheKeyPolicy,
         QueryStringBlacklist = CacheKeyPolicyConfig.QueryStringBlacklist cacheKeyPolicy,
         QueryStringWhitelist = CacheKeyPolicyConfig.QueryStringWhitelist cacheKeyPolicy,
         ckpOther = 0\<rparr>,
      CacheMode = [],
      RequestCoalescing = False,
      ServeWhileStale = 0,
      cdnOther = 0\<rparr>"

text \<open>
  A write \<^verbatim>\<open>be.CdnPolicy.f = v\<close>: it goes through the pointer \<^verbatim>\<open>be.CdnPolicy\<close>
  and panics when that pointer is nil.
\<close>

definition writeCdnPolicy ::
  "(('p, 'k) BackendServiceCdnPolicy \<Rightarrow> ('p, 'k) BackendServiceCdnPolicy) \<Rightarrow>
   ('b, 'p, 'k) BackendService \<Rightarrow> fault + ('b, 'p, 'k) BackendService" where
  "writeCdnPolicy f be =
     (case CdnPolicy be of
        None \<Rightarrow> Inl NilPointerDereference
      | Some p \<Rightarrow> Inr (be\<lparr>CdnPolicy := Some (f p)\<rparr>))"

text \<open>Sequencing of steps that may panic: the first panic ends the call.\<close>

definition andThen :: "fault + 'a \<Rightarrow> ('a \<Rightarrow> fault + 'c) \<Rightarrow> fault + 'c" where
  "andThen r f = (case r of Inl e \<Rightarrow> Inl e | Inr x \<Rightarrow> f x)"

text \<open>
  \<^verbatim>\<open>applyCDNSettings\<close> (lines 48 to 74). The Go function mutates \<^verbatim>\<open>be\<close> in place;
  the model returns the BackendService after the call, or the panic. The pointer
  \<^verbatim>\<open>be\<close> itself is taken to be non-nil. The model holds values, not pointers: the
  three optional writes go through \<^verbatim>\<open>be.CdnPolicy\<close> and would be seen by another
  holder of that pointer, and the two query string lists are shared with the configuration;
  no statement below depends on either.
\<close>

definition applyCDNSettings ::
  "ServicePort \<Rightarrow> ('b, 'p::zero, 'k::zero) BackendService \<Rightarrow>
   fault + ('b, 'p, 'k) BackendService" where
  "applyCDNSettings sp be =
     (case Cdn (Spec (BackendConfig sp)) of
        None \<Rightarrow> Inl NilPointerDereference
      | Some cdnConfig \<Rightarrow>
          (let be1 = be\<lparr>EnableCDN := Enabled cdnConfig\<rparr>;
               be2 = (case CachePolicy cdnConfig of
                        None \<Rightarrow> be1
                      | Some cacheKeyPolicy \<Rightarrow>
                          be1\<lparr>CdnPolicy := Some (newCdnPolicy cacheKeyPolicy)\<rparr>)
           in andThen
                (case CDNConfig.CacheMode cdnConfig of
                   None \<Rightarrow> Inr be2
                 | Some m \<Rightarrow> writeCdnPolicy (\<lambda>p. p\<lparr>CacheMode := m\<rparr>) be2)
                (\<lambda>be3. andThen
                   (case CDNConfig.RequestCoalescing cdnConfig of
                      None \<Rightarrow> Inr be3
                    | Some c \<Rightarrow> writeCdnPolicy (\<lambda>p. p\<lparr>RequestCoalescing := c\<rparr>) be3)
                   (\<lambda>be4.
                      (case ServeWhileStaleSec cdnConfig of
                         None \<Rightarrow> Inr be4
                       | Some s \<Rightarrow> writeCdnPolicy (\<lambda>p. p\<lparr>ServeWhileStale := s\<rparr>) be4)))))"

text \<open>
  \<^verbatim>\<open>EnsureCDN\<close> (lines 30 to 43): the returned boolean and the BackendService after
  the call, or the panic. The log line is not modelled.
\<close>

definition EnsureCDN ::
  "ServicePort \<Rightarrow> ('b::zero, 'p::zero, 'k::zero) BackendService \<Rightarrow>
   fault + (bool \<times> ('b, 'p, 'k) BackendService)" where
  "EnsureCDN sp be =
     (if Cdn (Spec (BackendConfig sp)) = None then Inr (False, be)
      else andThen (applyCDNSettings sp (emptyBackendService :: ('b, 'p, 'k) BackendService))
        (\<lambda>beTemp.
           if (CdnPolicy beTemp \<noteq> None \<and> CdnPolicy beTemp \<noteq> CdnPolicy be)
              \<or> EnableCDN beTemp \<noteq> EnableCDN be
           then andThen (applyCDNSettings sp be) (\<lambda>be'. Inr (True, be'))
           else Inr (False, be)))"


text \<open>
  Two abbreviations used to state the properties of \<^verbatim>\<open>cdn.go\<close>: whether the
  configuration asks for one of the three writes that go through \<^verbatim>\<open>be.CdnPolicy\<close>,
  and a CDN policy after those writes.
\<close>

definition cdnWritesNeedPolicy :: "CDNConfig \<Rightarrow> bool" where
  "cdnWritesNeedPolicy c =
     (CDNConfig.CacheMode c \<noteq> None \<or> CDNConfig.RequestCoalescing c \<noteq> None
      \<or> ServeWhileStaleSec c \<noteq> None)"

definition withOptionalSettings ::
  "CDNConfig \<Rightarrow> ('p, 'k) BackendServiceCdnPolicy \<Rightarrow> ('p, 'k) BackendServiceCdnPolicy" where
  "withOptionalSettings c p =
     p\<lparr>CacheMode := (case CDNConfig.CacheMode c of None \<Rightarrow> CacheMode p | Some m \<Rightarrow> m),
       RequestCoalescing :=
         (case CDNConfig.RequestCoalescing c of None \<Rightarrow> RequestCoalescing p | Some r \<Rightarrow> r),
       ServeWhileStale :=
         (case ServeWhileStaleSec c of None \<Rightarrow> ServeWhileStale p | Some s \<Rightarrow> s)\<rparr>"

section \<open>Versioned wrappers of the compute API (composite package, handwritten functions)\<close>

text \<open>
  A Go \<^verbatim>\<open>error\<close> is its message; the nil error is \<open>None\<close>.
\<close>

type_synonym error = string

text \<open>
  \<^verbatim>\<open>meta.Key\<close> of k8s-cloud-provider and its method \<^verbatim>\<open>Type()\<close>: a key with a
  zone is zonal, else one with a region is regional, else it is global.
  \<^verbatim>\<open>meta.GlobalKey(name)\<close> is the key with that name and neither zone nor region.
\<close>

record Key =
  Name :: string
  Zone :: string
  Region :: string

definition Type :: "Key \<Rightarrow> KeyType" where
  "Type k = (if Zone k \<noteq> [] then Zonal else if Region k \<noteq> [] then Regional else Global)"

definition GlobalKey :: "string \<Rightarrow> Key" where
  "GlobalKey name = \<lparr>Name = name, Zone = [], Region = []\<rparr>"

text \<open>The composite resources, with the two fields the wrappers read.\<close>

record TargetHttpsProxy =
  Name :: string
  Version :: Version

record TargetHttpProxy =
  Name :: string
  Version :: Version

record ForwardingRule =
  Name :: string
  Version :: Version

record SignedUrlKey =
  KeyName :: string
  KeyValue :: string

text \<open>
  The three generated API packages (\<^verbatim>\<open>computealpha\<close>, \<^verbatim>\<open>computebeta\<close>,
  \<^verbatim>\<open>compute\<close>) and the request bodies the wrappers build in them.
\<close>

datatype apiVersion = Alpha | Beta | GA

datatype request =
    UrlMapReference apiVersion string
  | TargetHttpsProxiesSetSslCertificatesRequest apiVersion "string list"
  | RegionTargetHttpsProxiesSetSslCertificatesRequest apiVersion "string list"
  | SslPolicyReference apiVersion string
  | TargetReference apiVersion string
  | SecurityPolicyReference apiVersion string

datatype computeSignedUrlKey = ComputeSignedUrlKey apiVersion string string

text \<open>
  The accessors of \<^verbatim>\<open>gceCloud.Compute()\<close> that the file names (also the ones it names
  in the calls it has commented out), and the methods called on them.
\<close>

datatype service =
    AlphaRegionTargetHttpsProxies | AlphaTargetHttpsProxies
  | BetaRegionTargetHttpsProxies | BetaTargetHttpsProxies
  | RegionTargetHttpsProxies | TargetHttpsProxies
  | AlphaRegionTargetHttpProxies | AlphaTargetHttpProxies
  | BetaRegionTargetHttpProxies | BetaTargetHttpProxies
  | RegionTargetHttpProxies | TargetHttpProxies
  | AlphaForwardingRules | AlphaGlobalForwardingRules
  | BetaForwardingRules | BetaGlobalForwardingRules
  | ForwardingRules | GlobalForwardingRules
  | AlphaRegionBackendServices | AlphaBackendServices
  | BetaRegionBackendServices | BetaBackendServices
  | RegionBackendServices | BackendServices

datatype clientMethod =
    SetUrlMap | SetSslCertificates | SetSslPolicy | SetTarget | SetSecurityPolicyMethod
  | AddSignedUrlKeyMethod | DeleteSignedUrlKeyMethod

text \<open>
  \<^verbatim>\<open>cloud.RateLimitKey\<close>, and the two raw calls of the GA REST client
  (\<^verbatim>\<open>g.s.GA.BackendServices.AddSignedUrlKey(projectID, key.Name, arg0)\<close> and its Delete
  twin) that the temporary \<^verbatim>\<open>gceBackendServices\<close> methods build and \<^verbatim>\<open>Do()\<close>.
\<close>

record RateLimitKey =
  ProjectID :: string
  Operation :: string
  Version :: Version
  Service :: string

datatype restCall =
    GA_BackendServices_AddSignedUrlKey string string computeSignedUrlKey
  | GA_BackendServices_DeleteSignedUrlKey string string string

type_synonym operation = string

text \<open>
  What a wrapper does to the outside: the calls it makes into k8s-cloud-provider, in order.
  \<open>ClientCall\<close> is a method of a generated client (which rate-limits and waits for the
  operation inside the library); the other three are the library's rate limiter, a raw REST
  call and the library's wait for an operation, called one by one.
\<close>

datatype event =
    ClientCall service clientMethod Key "request option"
  | RateLimiterAccept RateLimitKey
  | Do restCall
  | WaitForCompletion operation

text \<open>
  The outside world of the wrappers: \<^verbatim>\<open>*gce.Cloud\<close> and the library functions the code
  calls, each given by what it returns. \<open>clientCall\<close> is the error that a generated
  client returns; \<open>cloudProjectID\<close> is \<^verbatim>\<open>gceCloud.ProjectID()\<close>; \<open>SelfLink\<close> is
  \<^verbatim>\<open>cloud.SelfLink\<close>; \<open>Valid\<close> is \<^verbatim>\<open>key.Valid()\<close>; \<open>formatKey\<close> is what
  \<^verbatim>\<open>fmt\<close> prints for a key under \<^verbatim>\<open>%+v\<close>; \<open>routerProjectID\<close> is
  \<^verbatim>\<open>g.s.ProjectRouter.ProjectID(ctx, version, service)\<close>; \<open>Accept\<close> is
  \<^verbatim>\<open>g.s.RateLimiter.Accept\<close>; \<open>callDo\<close> is \<^verbatim>\<open>call.Do()\<close>; \<open>waitFor\<close> is
  \<^verbatim>\<open>g.s.WaitForCompletion\<close>; \<open>convert\<close> is \<^verbatim>\<open>signedUrlKey.ToAlpha()\<close>,
  \<^verbatim>\<open>ToBeta()\<close> and \<^verbatim>\<open>ToGA()\<close> of the generated composite code.
\<close>

record Cloud =
  clientCall :: "service \<Rightarrow> clientMethod \<Rightarrow> Key \<Rightarrow> request option \<Rightarrow> error option"
  cloudProjectID :: string
  SelfLink :: "Version \<Rightarrow> string \<Rightarrow> string \<Rightarrow> Key \<Rightarrow> string"
  Valid :: "Key \<Rightarrow> bool"
  formatKey :: "Key \<Rightarrow> string"
  routerProjectID :: "string \<Rightarrow> string \<Rightarrow> string"
  Accept :: "RateLimitKey \<Rightarrow> error option"
  callDo :: "restCall \<Rightarrow> error + operation"
  waitFor :: "operation \<Rightarrow> error option"
  convert :: "apiVersion \<Rightarrow> SignedUrlKey \<Rightarrow> error + computeSignedUrlKey"

text \<open>
  Modelled from the spec: \<^verbatim>\<open>MetricContext.Observe\<close> of
  \<^verbatim>\<open>pkg/composite/metrics\<close> is not among the files at hand. The spec has the errors
  of the wrapped SDK calls passed through, so \<open>Observe\<close> returns the error it is given; the
  latency and error counters it updates are not modelled.
\<close>

definition Observe :: "error option \<Rightarrow> error option" where
  "Observe err = err"

text \<open>
  \<^verbatim>\<open>return mc.Observe(gceCloud.Compute().S().M(ctx, key, arg))\<close>: the call issued and
  the error returned.
\<close>

definition observedCall ::
  "Cloud \<Rightarrow> service \<Rightarrow> clientMethod \<Rightarrow> Key \<Rightarrow> request option \<Rightarrow> event list \<times> error option" where
  "observedCall gceCloud s m key arg =
     ([ClientCall s m key arg], Observe (clientCall gceCloud s m key arg))"

text \<open>
  The wrappers return the calls they issued and their Go return value. Each of the first
  five sets \<^verbatim>\<open>key.Name\<close> before it dispatches, so the key of the call carries the
  resource's name. Log lines and the call timeout context are not modelled.
\<close>

definition SetUrlMapForTargetHttpsProxy ::
  "Cloud \<Rightarrow> Key \<Rightarrow> TargetHttpsProxy \<Rightarrow> string \<Rightarrow> event list \<times> error option" where
  "SetUrlMapForTargetHttpsProxy gceCloud key0 targetHttpsProxy urlMapLink =
     (let key = key0\<lparr>Key.Name := TargetHttpsProxy.Name targetHttpsProxy\<rparr> in
      if TargetHttpsProxy.Version targetHttpsProxy = VersionAlpha then
        (let ref = UrlMapReference Alpha urlMapLink in
         if Type key = Regional
         then observedCall gceCloud AlphaRegionTargetHttpsProxies SetUrlMap key (Some ref)
         else observedCall gceCloud AlphaTargetHttpsProxies SetUrlMap key (Some ref))
      else if TargetHttpsProxy.Version targetHttpsProxy = VersionBeta then
        (let ref = UrlMapReference Beta urlMapLink in
         if Type key = Regional
         then observedCall gceCloud BetaRegionTargetHttpsProxies SetUrlMap key (Some ref)
         else observedCall gceCloud BetaTargetHttpsProxies SetUrlMap key (Some ref))
      else
        (let ref = UrlMapReference GA urlMapLink in
         if Type key = Regional
         then observedCall gceCloud RegionTargetHttpsProxies SetUrlMap key (Some ref)
         else observedCall gceCloud TargetHttpsProxies SetUrlMap key (Some ref)))"

definition SetSslCertificateForTargetHttpsProxy ::
  "Cloud \<Rightarrow> Key \<Rightarrow> TargetHttpsProxy \<Rightarrow> string list \<Rightarrow> event list \<times> error option" where
  "SetSslCertificateForTargetHttpsProxy gceCloud key0 targetHttpsProxy sslCertURLs =
     (let key = key0\<lparr>Key.Name := TargetHttpsProxy.Name targetHttpsProxy\<rparr> in
      if TargetHttpsProxy.Version targetHttpsProxy = VersionAlpha then
        (if Type key = Regional
         then observedCall gceCloud AlphaRegionTargetHttpsProxies SetSslCertificates key
                (Some (RegionTargetHttpsProxiesSetSslCertificatesRequest Alpha sslCertURLs))
         else observedCall gceCloud AlphaTargetHttpsProxies SetSslCertificates key
                (Some (TargetHttpsProxiesSetSslCertificatesRequest Alpha sslCertURLs)))
      else if TargetHttpsProxy.Version targetHttpsProxy = VersionBeta then
        (if Type key = Regional
         then observedCall gceCloud BetaRegionTargetHttpsProxies SetSslCertificates key
                (Some (RegionTargetHttpsProxiesSetSslCertificatesRequest Beta sslCertURLs))
         else observedCall gceCloud BetaTargetHttpsProxies SetSslCertificates key
                (Some (TargetHttpsProxiesSetSslCertificatesRequest Beta sslCertURLs)))
      else
        (if Type key = Regional
         then observedCall gceCloud RegionTargetHttpsProxies SetSslCertificates key
                (Some (RegionTargetHttpsProxiesSetSslCertificatesRequest GA sslCertURLs))
         else observedCall gceCloud TargetHttpsProxies SetSslCertificates key
                (Some (TargetHttpsProxiesSetSslCertificatesRequest GA sslCertURLs))))"

definition regionalSslPolicyError :: error where
  "regionalSslPolicyError =
     ''SetSslPolicy() is not supported for regional Target Https Proxies''"

definition SetSslPolicyForTargetHttpsProxy ::
  "Cloud \<Rightarrow> Key \<Rightarrow> TargetHttpsProxy \<Rightarrow> string \<Rightarrow> event list \<times> error option" where
  "SetSslPolicyForTargetHttpsProxy gceCloud key0 targetHttpsProxy SslPolicyLink =
     (let key = key0\<lparr>Key.Name := TargetHttpsProxy.Name targetHttpsProxy\<rparr> in
      if TargetHttpsProxy.Version targetHttpsProxy = VersionAlpha then
        (let ref = SslPolicyReference Alpha SslPolicyLink in
         if Type key = Regional then ([], Some regionalSslPolicyError)
         else observedCall gceCloud AlphaTargetHttpsProxies SetSslPolicy key (Some ref))
      else if TargetHttpsProxy.Version targetHttpsProxy = VersionBeta then
        (let ref = SslPolicyReference Beta SslPolicyLink in
         if Type key = Regional then ([], Some regionalSslPolicyError)
         else observedCall gceCloud BetaTargetHttpsProxies SetSslPolicy key (Some ref))
      else
        (let ref = SslPolicyReference GA SslPolicyLink in
         if Type key = Regional then ([], Some regionalSslPolicyError)
         else observedCall gceCloud TargetHttpsProxies SetSslPolicy key (Some ref)))"

definition SetUrlMapForTargetHttpProxy ::
  "Cloud \<Rightarrow> Key \<Rightarrow> TargetHttpProxy \<Rightarrow> string \<Rightarrow> event list \<times> error option" where
  "SetUrlMapForTargetHttpProxy gceCloud key0 targetHttpProxy urlMapLink =
     (let key = key0\<lparr>Key.Name := TargetHttpProxy.Name targetHttpProxy\<rparr> in
      if TargetHttpProxy.Version targetHttpProxy = VersionAlpha then
        (let ref = UrlMapReference Alpha urlMapLink in
         if Type key = Regional
         then observedCall gceCloud AlphaRegionTargetHttpProxies SetUrlMap key (Some ref)
         else observedCall gceCloud AlphaTargetHttpProxies SetUrlMap key (Some ref))
      else if TargetHttpProxy.Version targetHttpProxy = VersionBeta then
        (let ref = UrlMapReference Beta urlMapLink in
         if Type key = Regional
         then observedCall gceCloud BetaRegionTargetHttpProxies SetUrlMap key (Some ref)
         else observedCall gceCloud BetaTargetHttpProxies SetUrlMap key (Some ref))
      else
        (let ref = UrlMapReference GA urlMapLink in
         if Type key = Regional
         then observedCall gceCloud RegionTargetHttpProxies SetUrlMap key (Some ref)
         else observedCall gceCloud TargetHttpProxies SetUrlMap key (Some ref)))"

definition SetProxyForForwardingRule ::
  "Cloud \<Rightarrow> Key \<Rightarrow> ForwardingRule \<Rightarrow> string \<Rightarrow> event list \<times> error option" where
  "SetProxyForForwardingRule gceCloud key0 forwardingRule targetProxyLink =
     (let key = key0\<lparr>Key.Name := ForwardingRule.Name forwardingRule\<rparr> in
      if ForwardingRule.Version forwardingRule = VersionAlpha then
        (let target = TargetReference Alpha targetProxyLink in
         if Type key = Regional
         then observedCall gceCloud AlphaForwardingRules SetTarget key (Some target)
         else observedCall gceCloud AlphaGlobalForwardingRules SetTarget key (Some target))
      else if ForwardingRule.Version forwardingRule = VersionBeta then
        (let target = TargetReference Beta targetProxyLink in
         if Type key = Regional
         then observedCall gceCloud BetaForwardingRules SetTarget key (Some target)
         else observedCall gceCloud BetaGlobalForwardingRules SetTarget key (Some target))
      else
        (let target = TargetReference GA targetProxyLink in
         if Type key = Regional
         then observedCall gceCloud ForwardingRules SetTarget key (Some target)
         else observedCall gceCloud GlobalForwardingRules SetTarget key (Some target)))"

text \<open>
  \<^verbatim>\<open>SetSecurityPolicy\<close> (lines 230 to 263). The reference stays nil (\<open>None\<close>) for the
  empty policy name.
\<close>

definition unsupportedScopeError :: "KeyType \<Rightarrow> string \<Rightarrow> error" where
  "unsupportedScopeError scope name =
     ''cloud armor security policies not supported for '' @ scope
       @ '' backend service '' @ name"

definition SetSecurityPolicy ::
  "Cloud \<Rightarrow> ('b, 'p, 'k) BackendService \<Rightarrow> string \<Rightarrow> event list \<times> error option" where
  "SetSecurityPolicy gceCloud backendService securityPolicy =
     (let key = GlobalKey (BackendService.Name backendService) in
      if Scope backendService \<noteq> Global
      then ([], Some (unsupportedScopeError (Scope backendService)
                        (BackendService.Name backendService)))
      else if BackendService.Version backendService = VersionAlpha then
        (let ref = (if securityPolicy \<noteq> []
                    then Some (SecurityPolicyReference Alpha
                           (SelfLink gceCloud VersionAlpha (cloudProjectID gceCloud)
                              ''securityPolicies'' (GlobalKey securityPolicy)))
                    else None)
         in observedCall gceCloud AlphaBackendServices SetSecurityPolicyMethod key ref)
      else if BackendService.Version backendService = VersionBeta then
        (let ref = (if securityPolicy \<noteq> []
                    then Some (SecurityPolicyReference Beta
                           (SelfLink gceCloud VersionBeta (cloudProjectID gceCloud)
                              ''securityPolicies'' (GlobalKey securityPolicy)))
                    else None)
         in observedCall gceCloud BetaBackendServices SetSecurityPolicyMethod key ref)
      else
        (let ref = (if securityPolicy \<noteq> []
                    then Some (SecurityPolicyReference GA
                           (SelfLink gceCloud VersionGA (cloudProjectID gceCloud)
                              ''securityPolicies'' (GlobalKey securityPolicy)))
                    else None)
         in observedCall gceCloud BackendServices SetSecurityPolicyMethod key ref))"

text \<open>
  The temporary \<^verbatim>\<open>gceBackendServices\<close> (lines 359 to 440). \<^verbatim>\<open>hackGceCloud\<close> reads,
  by reflection, the unexported field \<^verbatim>\<open>s\<close> of the value behind the
  \<^verbatim>\<open>cloud.BackendServices\<close> interface: the \<^verbatim>\<open>*cloud.Service\<close> with the rate
  limiter, the project router and the GA REST client, which the model keeps in \<open>Cloud\<close>.
  The service it is handed is always \<open>BackendServices\<close>, the GA client of global backend
  services. The reflection itself (it panics on an implementation without that field) is
  not modelled.
\<close>

definition hackGceCloud :: "Cloud \<Rightarrow> service \<Rightarrow> Cloud" where
  "hackGceCloud gceCloud bs = gceCloud"

definition invalidKeyError :: "Cloud \<Rightarrow> Key \<Rightarrow> error" where
  "invalidKeyError g key = ''invalid GCE key ('' @ formatKey g key @ '')''"

definition gceBackendServices_AddSignedUrlKey ::
  "Cloud \<Rightarrow> Key \<Rightarrow> SignedUrlKey \<Rightarrow> event list \<times> error option" where
  "gceBackendServices_AddSignedUrlKey g key signedUrlKey =
     (case convert g GA signedUrlKey of
        Inl err \<Rightarrow> ([], Some err)
      | Inr arg0 \<Rightarrow>
          if \<not> Valid g key then ([], Some (invalidKeyError g key))
          else
            (let projectID = routerProjectID g ''ga'' ''BackendServices'';
                 rk = \<lparr>ProjectID = projectID, Operation = ''AddSignedUrlKey'',
                       Version = ''ga'', Service = ''BackendServices''\<rparr>
             in case Accept g rk of
                  Some err \<Rightarrow> ([RateLimiterAccept rk], Some err)
                | None \<Rightarrow>
                    (let call = GA_BackendServices_AddSignedUrlKey projectID (Key.Name key) arg0
                     in case callDo g call of
                          Inl err \<Rightarrow> ([RateLimiterAccept rk, Do call], Some err)
                        | Inr op \<Rightarrow>
                            ([RateLimiterAccept rk, Do call, WaitForCompletion op],
                             waitFor g op))))"

definition gceBackendServices_DeleteSignedUrlKey ::
  "Cloud \<Rightarrow> Key \<Rightarrow> string \<Rightarrow> event list \<times> error option" where
  "gceBackendServices_DeleteSignedUrlKey g key keyName =
     (if \<not> Valid g key then ([], Some (invalidKeyError g key))
      else
        (let projectID = routerProjectID g ''ga'' ''BackendServices'';
             rk = \<lparr>ProjectID = projectID, Operation = ''DeleteSignedUrlKey'',
                   Version = ''ga'', Service = ''BackendServices''\<rparr>
         in case Accept g rk of
              Some err \<Rightarrow> ([RateLimiterAccept rk], Some err)
            | None \<Rightarrow>
                (let call = GA_BackendServices_DeleteSignedUrlKey projectID (Key.Name key) keyName
                 in case callDo g call of
                      Inl err \<Rightarrow> ([RateLimiterAccept rk, Do call], Some err)
                    | Inr op \<Rightarrow>
                        ([RateLimiterAccept rk, Do call, WaitForCompletion op],
                         waitFor g op))))"

text \<open>\<^verbatim>\<open>return mc.Observe(f(...))\<close> around a call that reports its own events.\<close>

definition observed :: "event list \<times> error option \<Rightarrow> event list \<times> error option" where
  "observed r = (fst r, Observe (snd r))"

text \<open>
  \<^verbatim>\<open>AddSignedUrlKey\<close> (lines 265 to 316) and \<^verbatim>\<open>DeleteSignedUrlKey\<close> (lines 318 to
  357). All six branches make the same call; the versioned calls stand in comments in the
  source. The converted key of a branch is only printed.
\<close>

definition AddSignedUrlKey ::
  "Cloud \<Rightarrow> Key \<Rightarrow> ('b, 'p, 'k) BackendService \<Rightarrow> SignedUrlKey \<Rightarrow> event list \<times> error option" where
  "AddSignedUrlKey gceCloud key backendService signedUrlKey =
     (if BackendService.Version backendService = VersionAlpha then
        (case convert gceCloud Alpha signedUrlKey of
           Inl err \<Rightarrow> ([], Some err)
         | Inr alphaKey \<Rightarrow>
             if Type key = Regional
             then observed (gceBackendServices_AddSignedUrlKey
                              (hackGceCloud gceCloud BackendServices) key signedUrlKey)
             else observed (gceBackendServices_AddSignedUrlKey
                              (hackGceCloud gceCloud BackendServices) key signedUrlKey))
      else if BackendService.Version backendService = VersionBeta then
        (case convert gceCloud Beta signedUrlKey of
           Inl err \<Rightarrow> ([], Some err)
         | Inr betaKey \<Rightarrow>
             if Type key = Regional
             then observed (gceBackendServices_AddSignedUrlKey
                              (hackGceCloud gceCloud BackendServices) key signedUrlKey)
             else observed (gceBackendServices_AddSignedUrlKey
                              (hackGceCloud gceCloud BackendServices) key signedUrlKey))
      else
        (case convert gceCloud GA signedUrlKey of
           Inl err \<Rightarrow> ([], Some err)
         | Inr gaKey \<Rightarrow>
             if Type key = Regional
             then observed (gceBackendServices_AddSignedUrlKey
                              (hackGceCloud gceCloud BackendServices) key signedUrlKey)
             else observed (gceBackendServices_AddSignedUrlKey
                              (hackGceCloud gceCloud BackendServices) key signedUrlKey)))"

definition DeleteSignedUrlKey ::
  "Cloud \<Rightarrow> Key \<Rightarrow> ('b, 'p, 'k) BackendService \<Rightarrow> string \<Rightarrow> event list \<times> error option" where
  "DeleteSignedUrlKey gceCloud key backendService keyName =
     (if BackendService.Version backendService = VersionAlpha then
        (if Type key = Regional
         then observed (gceBackendServices_DeleteSignedUrlKey
                          (hackGceCloud gceCloud BackendServices) key keyName)
         else observed (gceBackendServices_DeleteSignedUrlKey
                          (hackGceCloud gceCloud BackendServices) key keyName))
      else if BackendService.Version backendService = VersionBeta then
        (if Type key = Regional
         then observed (gceBackendServices_DeleteSignedUrlKey
                          (hackGceCloud gceCloud BackendServices) key keyName)
         else observed (gceBackendServices_DeleteSignedUrlKey
                          (hackGceCloud gceCloud BackendServices) key keyName))
      else
        (if Type key = Regional
         then observed (gceBackendServices_DeleteSignedUrlKey
                          (hackGceCloud gceCloud BackendServices) key keyName)
         else observed (gceBackendServices_DeleteSignedUrlKey
                          (hackGceCloud gceCloud BackendServices) key keyName)))"

text \<open>
  The client the spec's words ask for: "a switch over API version/scope dispatching to the
  matching generated client method". \<open>versionOf\<close> is the switch over the version
  (alpha, beta, anything else is GA), \<open>regional\<close> the switch over the key's type, and
  \<open>clientFor\<close> the generated client of a resource for a version and a scope.
\<close>

datatype resource = TargetHttpsProxyResource | TargetHttpProxyResource
  | ForwardingRuleResource | BackendServiceResource

definition versionOf :: "Version \<Rightarrow> apiVersion" where
  "versionOf v = (if v = VersionAlpha then Alpha else if v = VersionBeta then Beta else GA)"

definition regional :: "Key \<Rightarrow> bool" where
  "regional key = (Type key = Regional)"

fun clientFor :: "resource \<Rightarrow> apiVersion \<Rightarrow> bool \<Rightarrow> service" where
  "clientFor TargetHttpsProxyResource Alpha True = AlphaRegionTargetHttpsProxies"
| "clientFor TargetHttpsProxyResource Alpha False = AlphaTargetHttpsProxies"
| "clientFor TargetHttpsProxyResource Beta True = BetaRegionTargetHttpsProxies"
| "clientFor TargetHttpsProxyResource Beta False = BetaTargetHttpsProxies"
| "clientFor TargetHttpsProxyResource GA True = RegionTargetHttpsProxies"
| "clientFor TargetHttpsProxyResource GA False = TargetHttpsProxies"
| "clientFor TargetHttpProxyResource Alpha True = AlphaRegionTargetHttpProxies"
| "clientFor TargetHttpProxyResource Alpha False = AlphaTargetHttpProxies"
| "clientFor TargetHttpProxyResource Beta True = BetaRegionTargetHttpProxies"
| "clientFor TargetHttpProxyResource Beta False = BetaTargetHttpProxies"
| "clientFor TargetHttpProxyResource GA True = RegionTargetHttpProxies"
| "clientFor TargetHttpProxyResource GA False = TargetHttpProxies"
| "clientFor ForwardingRuleResource Alpha True = AlphaForwardingRules"
| "clientFor ForwardingRuleResource Alpha False = AlphaGlobalForwardingRules"
| "clientFor ForwardingRuleResource Beta True = BetaForwardingRules"
| "clientFor ForwardingRuleResource Beta False = BetaGlobalForwardingRules"
| "clientFor ForwardingRuleResource GA True = ForwardingRules"
| "clientFor ForwardingRuleResource GA False = GlobalForwardingRules"
| "clientFor BackendServiceResource Alpha True = AlphaRegionBackendServices"
| "clientFor BackendServiceResource Alpha False = AlphaBackendServices"
| "clientFor BackendServiceResource Beta True = BetaRegionBackendServices"
| "clientFor BackendServiceResource Beta False = BetaBackendServices"
| "clientFor BackendServiceResource GA True = RegionBackendServices"
| "clientFor BackendServiceResource GA False = BackendServices"

text \<open>The certificate list in the request type of a version and scope.\<close>

definition sslCertificatesRequest :: "apiVersion \<Rightarrow> bool \<Rightarrow> string list \<Rightarrow> request" where
  "sslCertificatesRequest v r urls =
     (if r then RegionTargetHttpsProxiesSetSslCertificatesRequest v urls
      else TargetHttpsProxiesSetSslCertificatesRequest v urls)"

text \<open>What the library answered to a call: its error, if any.\<close>

fun eventError :: "Cloud \<Rightarrow> event \<Rightarrow> error option" where
  "eventError g (ClientCall s m key arg) = clientCall g s m key arg"
| "eventError g (RateLimiterAccept rk) = Accept g rk"
| "eventError g (Do call) = (case callDo g call of Inl err \<Rightarrow> Some err | Inr op \<Rightarrow> None)"
| "eventError g (WaitForCompletion op) = waitFor g op"


section \<open>Metrics of L4 internal load balancers (pkg/metrics)\<close>

text \<open>
  \<^verbatim>\<open>L4ILBServiceState\<close> and the constructor \<^verbatim>\<open>newL4ILBServiceState\<close> of the test
  file (lines 167 to 173).
\<close>

record L4ILBServiceState =
  EnabledGlobalAccess :: bool
  EnabledCustomSubnet :: bool
  InSuccess :: bool

definition newL4ILBServiceState :: "bool \<Rightarrow> bool \<Rightarrow> bool \<Rightarrow> L4ILBServiceState" where
  "newL4ILBServiceState globalAccess customSubnet inSuccess =
     \<lparr>EnabledGlobalAccess = globalAccess, EnabledCustomSubnet = customSubnet,
      InSuccess = inSuccess\<rparr>"

text \<open>The five keys of the map that \<^verbatim>\<open>computeL4ILBMetrics\<close> returns.\<close>

datatype feature =
  l4ILBService | l4ILBGlobalAccess | l4ILBCustomSubnet | l4ILBInSuccess | l4ILBInError

text \<open>
  Modelled from the spec: \<^verbatim>\<open>ControllerMetrics\<close>, \<^verbatim>\<open>NewControllerMetrics\<close> and
  \<^verbatim>\<open>SetL4ILBService\<close> are not among the files at hand; only their test is. The states
  are kept in a Go map from the service key to its state, here an association list with one
  entry per key; setting a key again replaces its state.
\<close>

record ControllerMetrics =
  l4ILBServiceMap :: "(string \<times> L4ILBServiceState) list"

definition NewControllerMetrics :: ControllerMetrics where
  "NewControllerMetrics = \<lparr>l4ILBServiceMap = []\<rparr>"

definition SetL4ILBService ::
  "string \<Rightarrow> L4ILBServiceState \<Rightarrow> ControllerMetrics \<Rightarrow> ControllerMetrics" where
  "SetL4ILBService svcKey state im =
     im\<lparr>l4ILBServiceMap := AList.update svcKey state (l4ILBServiceMap im)\<rparr>"

text \<open>\<^verbatim>\<open>counts[f]++\<close> on a Go map: a missing key reads as 0.\<close>

definition increment :: "feature \<Rightarrow> (feature \<rightharpoonup> int) \<Rightarrow> (feature \<rightharpoonup> int)" where
  "increment f counts = counts(f \<mapsto> (case counts f of None \<Rightarrow> 0 | Some n \<Rightarrow> n) + 1)"

text \<open>
  Modelled from the spec: \<^verbatim>\<open>computeL4ILBMetrics\<close> is not among the files at hand. The
  spec has the states "aggregated by counting" so that "the aggregation counts match expected
  tallies for given input states", and the tallies are those of
  \<^verbatim>\<open>TestComputeL4ILBMetrics\<close>: all five features are present from the start, every
  service counts as a service and as in success or in error, and the test's tallies for
  services in error (lines 66 to 76 and 134 to 149) leave the global access and custom
  subnet of a service in error uncounted.
\<close>

definition countService ::
  "L4ILBServiceState \<Rightarrow> (feature \<rightharpoonup> int) \<Rightarrow> (feature \<rightharpoonup> int)" where
  "countService state counts =
     (let c1 = increment l4ILBService counts in
      if \<not> InSuccess state then increment l4ILBInError c1
      else
        (let c2 = increment l4ILBInSuccess c1;
             c3 = (if EnabledGlobalAccess state then increment l4ILBGlobalAccess c2 else c2)
         in if EnabledCustomSubnet state then increment l4ILBCustomSubnet c3 else c3))"

definition zeroCounts :: "feature \<rightharpoonup> int" where
  "zeroCounts =
     [l4ILBService \<mapsto> 0, l4ILBGlobalAccess \<mapsto> 0, l4ILBCustomSubnet \<mapsto> 0,
      l4ILBInSuccess \<mapsto> 0, l4ILBInError \<mapsto> 0]"

definition computeL4ILBMetrics :: "ControllerMetrics \<Rightarrow> (feature \<rightharpoonup> int)" where
  "computeL4ILBMetrics im =
     fold (\<lambda>entry. countService (snd entry)) (l4ILBServiceMap im) zeroCounts"

text \<open>
  The loop of the test (lines 155 to 159): state number \<open>i\<close> is registered under the key
  \<^verbatim>\<open>string(i)\<close>, the one-character string of code point \<open>i\<close>.
\<close>

fun registerFrom :: "nat \<Rightarrow> L4ILBServiceState list \<Rightarrow> ControllerMetrics \<Rightarrow> ControllerMetrics" where
  "registerFrom i [] im = im"
| "registerFrom i (serviceState # rest) im =
     registerFrom (Suc i) rest (SetL4ILBService [char_of i] serviceState im)"

definition testGot :: "L4ILBServiceState list \<Rightarrow> (feature \<rightharpoonup> int)" where
  "testGot serviceStates = computeL4ILBMetrics (registerFrom 0 serviceStates NewControllerMetrics)"

text \<open>The expected map of a test case, in the order service, global access, custom subnet,
  in success, in error.\<close>

definition expectL4ILBCount :: "int \<Rightarrow> int \<Rightarrow> int \<Rightarrow> int \<Rightarrow> int \<Rightarrow> (feature \<rightharpoonup> int)" where
  "expectL4ILBCount s g c ok bad =
     [l4ILBService \<mapsto> s, l4ILBGlobalAccess \<mapsto> g, l4ILBCustomSubnet \<mapsto> c,
      l4ILBInSuccess \<mapsto> ok, l4ILBInError \<mapsto> bad]"

text \<open>Registering a list of keyed states, one \<^verbatim>\<open>SetL4ILBService\<close> per entry.\<close>

definition registerAll ::
  "(string \<times> L4ILBServiceState) list \<Rightarrow> ControllerMetrics" where
  "registerAll entries =
     fold (\<lambda>entry. SetL4ILBService (fst entry) (snd entry)) entries NewControllerMetrics"

text \<open>How many of the registered states satisfy a condition.\<close>

definition tally ::
  "(L4ILBServiceState \<Rightarrow> bool) \<Rightarrow> (string \<times> L4ILBServiceState) list \<Rightarrow> int" where
  "tally P entries = int (length (filter (\<lambda>entry. P (snd entry)) entries))"

section \<open>The end-to-end test sandbox\<close>

text \<open>
  \<^verbatim>\<open>Sandbox.Ensure\<close> (lines 50 to 70 of the e2e file). A sandbox holds its namespace and
  the validator environment, a pointer that the call assigns. The framework \<^verbatim>\<open>s.f\<close> is
  given by what its two calls return: the error of creating the namespace with the
  Kubernetes client, and the pair that \<^verbatim>\<open>fuzz.NewDefaultValidatorEnv\<close> returns.
\<close>

record 'v Sandbox =
  Namespace :: string
  ValidatorEnv :: "'v option"

record 'v Framework =
  createNamespace :: "string \<Rightarrow> error option"
  NewDefaultValidatorEnv :: "string \<Rightarrow> 'v option \<times> error option"

datatype sandboxCall = CreateNamespace string | BuildValidatorEnv string

text \<open>\<^verbatim>\<open>strings.HasSuffix\<close> of the Go standard library.\<close>

definition HasSuffix :: "string \<Rightarrow> string \<Rightarrow> bool" where
  "HasSuffix s suffix =
     (length s \<ge> length suffix \<and> drop (length s - length suffix) s = suffix)"

text \<open>The sandbox after the call, the calls made, and the returned error.\<close>

definition Ensure ::
  "'v Framework \<Rightarrow> 'v Sandbox \<Rightarrow> 'v Sandbox \<times> sandboxCall list \<times> error option" where
  "Ensure f s =
     (let err = createNamespace f (Namespace s) in
      if (case err of None \<Rightarrow> False | Some e \<Rightarrow> \<not> HasSuffix e ''already exists'')
      then (s, [CreateNamespace (Namespace s)], err)
      else
        (let r = NewDefaultValidatorEnv f (Namespace s) in
         (s\<lparr>ValidatorEnv := fst r\<rparr>,
          [CreateNamespace (Namespace s), BuildValidatorEnv (Namespace s)],
          snd r)))"

section \<open>Conditions used in the statements, and concrete inputs\<close>

text \<open>
  The condition under which \<^verbatim>\<open>EnsureCDN\<close> cannot dereference a nil CDN policy: there is
  no CDN section, or it has a cache policy, or it asks for none of the three optional
  settings.
\<close>

definition noFaultPrecondition :: "ServicePort \<Rightarrow> bool" where
  "noFaultPrecondition sp =
     (case Cdn (Spec (BackendConfig sp)) of
        None \<Rightarrow> True
      | Some c \<Rightarrow> CachePolicy c \<noteq> None \<or> \<not> cdnWritesNeedPolicy c)"

text \<open>
  Two outcomes of a wrapper. It passes an error through when it issued calls and returns
  what the last of them answered; it makes an error of its own when it returns one without
  having issued a call.
\<close>

definition passesThrough :: "Cloud \<Rightarrow> event list \<times> error option \<Rightarrow> bool" where
  "passesThrough g r = (fst r \<noteq> [] \<and> snd r = eventError g (last (fst r)))"

definition ownError :: "event list \<times> error option \<Rightarrow> bool" where
  "ownError r = (fst r = [] \<and> snd r \<noteq> None)"

text \<open>Service ports and backend services for the CDN settings.\<close>

definition cachePolicyExample :: CacheKeyPolicyConfig where
  "cachePolicyExample =
     \<lparr>CacheKeyPolicyConfig.IncludeHost = True, CacheKeyPolicyConfig.IncludeProtocol = True,
      CacheKeyPolicyConfig.IncludeQueryString = False,
      CacheKeyPolicyConfig.QueryStringBlacklist = None,
      CacheKeyPolicyConfig.QueryStringWhitelist = Some [''lang'']\<rparr>"

definition servicePortWith :: "CDNConfig \<Rightarrow> ServicePort" where
  "servicePortWith c = \<lparr>BackendConfig = \<lparr>Spec = \<lparr>Cdn = Some c\<rparr>\<rparr>\<rparr>"

definition cdnCacheModeOnly :: CDNConfig where
  "cdnCacheModeOnly =
     \<lparr>Enabled = True, CachePolicy = None, CDNConfig.CacheMode = Some ''CACHE_ALL_STATIC'',
      CDNConfig.RequestCoalescing = None, ServeWhileStaleSec = None\<rparr>"

definition cdnCachePolicyOnly :: CDNConfig where
  "cdnCachePolicyOnly =
     \<lparr>Enabled = True, CachePolicy = Some cachePolicyExample, CDNConfig.CacheMode = None,
      CDNConfig.RequestCoalescing = None, ServeWhileStaleSec = None\<rparr>"

definition backendForceCacheAll :: "(nat, nat, nat) BackendService" where
  "backendForceCacheAll =
     \<lparr>BackendService.Name = ''be-1'', Scope = Global, BackendService.Version = VersionGA, EnableCDN = True,
      CdnPolicy = Some \<lparr>CacheKeyPolicy = None, CacheMode = ''FORCE_CACHE_ALL'',
                        RequestCoalescing = True, ServeWhileStale = 86400, cdnOther = 1\<rparr>,
      beOther = 1\<rparr>"

text \<open>A cloud in which every call succeeds, and keys and backend services for the wrappers.\<close>

definition cloudAllSucceed :: Cloud where
  "cloudAllSucceed =
     \<lparr>clientCall = (\<lambda>s m key arg. None),
      cloudProjectID = ''my-project'',
      SelfLink = (\<lambda>v project res key. project @ ''/global/'' @ res @ ''/'' @ Key.Name key),
      Valid = (\<lambda>key. True),
      formatKey = Key.Name,
      routerProjectID = (\<lambda>v s. ''my-project''),
      Accept = (\<lambda>rk. None),
      callDo = (\<lambda>call. Inr ''operation-1''),
      waitFor = (\<lambda>op. None),
      convert = (\<lambda>v k. Inr (ComputeSignedUrlKey v (KeyName k) (KeyValue k)))\<rparr>"

definition regionalKey :: Key where
  "regionalKey = \<lparr>Key.Name = ''bs-1'', Zone = [], Region = ''us-central1''\<rparr>"

definition alphaRegionalBackend :: "(nat, nat, nat) BackendService" where
  "alphaRegionalBackend =
     \<lparr>BackendService.Name = ''bs-1'', Scope = Regional, BackendService.Version = VersionAlpha,
      EnableCDN = True, CdnPolicy = None, beOther = 0\<rparr>"

definition gaGlobalBackend :: "(nat, nat, nat) BackendService" where
  "gaGlobalBackend =
     \<lparr>BackendService.Name = ''bs-2'', Scope = Global, BackendService.Version = VersionGA,
      EnableCDN = True, CdnPolicy = None, beOther = 0\<rparr>"

definition signedUrlKeyExample :: SignedUrlKey where
  "signedUrlKeyExample = \<lparr>KeyName = ''key-1'', KeyValue = ''c2VjcmV0''\<rparr>"


text \<open>
  Two frameworks for the sandbox: one whose namespace exists already, one that may not
  create namespaces; and a sandbox.
\<close>

definition frameworkNamespaceExists :: "nat Framework" where
  "frameworkNamespaceExists =
     \<lparr>createNamespace = (\<lambda>ns. Some (''namespaces \"'' @ ns @ ''\" already exists'')),
      NewDefaultValidatorEnv = (\<lambda>ns. (Some 1, None))\<rparr>"

definition frameworkForbidden :: "nat Framework" where
  "frameworkForbidden =
     \<lparr>createNamespace = (\<lambda>ns. Some (''namespaces is forbidden'')),
      NewDefaultValidatorEnv = (\<lambda>ns. (Some 1, None))\<rparr>"

definition sandboxExample :: "nat Sandbox" where
  "sandboxExample = \<lparr>Namespace = ''test-sandbox'', ValidatorEnv = None\<rparr>"

text \<open>Two registered services, the second in error with a custom subnet.\<close>

definition entriesOneInError :: "(string \<times> L4ILBServiceState) list" where
  "entriesOneInError =
     [(''default/ilb-ok'', newL4ILBServiceState True False True),
      (''default/ilb-failing'', newL4ILBServiceState False True False)]"

text \<open>Simplification sets for the concrete inputs and the library constants.\<close>

lemmas cdn_examples = cachePolicyExample_def servicePortWith_def cdnCacheModeOnly_def
  cdnCachePolicyOnly_def backendForceCacheAll_def

lemmas cloud_examples = cloudAllSucceed_def regionalKey_def alphaRegionalBackend_def
  gaGlobalBackend_def signedUrlKeyExample_def

lemmas version_defs = VersionAlpha_def VersionBeta_def VersionGA_def

lemmas keytype_defs = Zonal_def Regional_def Global_def

section \<open>What the CDN functions compute\<close>

text \<open>
  \<^verbatim>\<open>applyCDNSettings\<close> in closed form, by what the configuration and the backend
  service hold, and \<^verbatim>\<open>EnsureCDN\<close> after it.
\<close>

lemma applyCDNSettings_some_policy:
  assumes "Cdn (Spec (BackendConfig sp)) = Some c" "CachePolicy c = Some k"
  shows "applyCDNSettings sp be = Inr (be\<lparr>EnableCDN := Enabled c,
     CdnPolicy := Some (withOptionalSettings c (newCdnPolicy k))\<rparr>)"
  using assms
  by (simp add: applyCDNSettings_def andThen_def writeCdnPolicy_def withOptionalSettings_def Let_def split: option.splits)

lemma applyCDNSettings_keep_policy:
  assumes "Cdn (Spec (BackendConfig sp)) = Some c" "CachePolicy c = None" "CdnPolicy be = Some p"
  shows "applyCDNSettings sp be = Inr (be\<lparr>EnableCDN := Enabled c,
     CdnPolicy := Some (withOptionalSettings c p)\<rparr>)"
  using assms
  by (simp add: applyCDNSettings_def andThen_def writeCdnPolicy_def withOptionalSettings_def Let_def split: option.splits)

lemma applyCDNSettings_nil_policy:
  assumes "Cdn (Spec (BackendConfig sp)) = Some c" "CachePolicy c = None" "CdnPolicy be = None"
  shows "applyCDNSettings sp be =
     (if cdnWritesNeedPolicy c then Inl NilPointerDereference else Inr (be\<lparr>EnableCDN := Enabled c\<rparr>))"
  using assms
  by (auto simp add: applyCDNSettings_def andThen_def writeCdnPolicy_def cdnWritesNeedPolicy_def Let_def split: option.splits)

lemma EnsureCDN_no_cdn:
  "Cdn (Spec (BackendConfig sp)) = None \<Longrightarrow> EnsureCDN sp be = Inr (False, be)"
  by (simp add: EnsureCDN_def)

lemma EnsureCDN_some_policy:
  assumes "Cdn (Spec (BackendConfig sp)) = Some c" "CachePolicy c = Some k"
  shows "EnsureCDN sp be =
    (if Some (withOptionalSettings c (newCdnPolicy k)) \<noteq> CdnPolicy be \<or> Enabled c \<noteq> EnableCDN be
     then Inr (True, be\<lparr>EnableCDN := Enabled c, CdnPolicy := Some (withOptionalSettings c (newCdnPolicy k))\<rparr>)
     else Inr (False, be))"
  using assms
  by (simp add: EnsureCDN_def applyCDNSettings_some_policy [OF assms] andThen_def)

lemma withOptionalSettings_none:
  "\<not> cdnWritesNeedPolicy c \<Longrightarrow> withOptionalSettings c p = p"
  by (simp add: withOptionalSettings_def cdnWritesNeedPolicy_def)

lemma EnsureCDN_nil_policy:
  assumes "Cdn (Spec (BackendConfig sp)) = Some c" "CachePolicy c = None"
  shows "EnsureCDN sp be =
    (if cdnWritesNeedPolicy c then Inl NilPointerDereference
     else if Enabled c \<noteq> EnableCDN be then Inr (True, be\<lparr>EnableCDN := Enabled c\<rparr>)
     else Inr (False, be))"
proof -
  have t: "applyCDNSettings sp (emptyBackendService :: ('a, 'b, 'c) BackendService) =
      (if cdnWritesNeedPolicy c then Inl NilPointerDereference
       else Inr (emptyBackendService\<lparr>EnableCDN := Enabled c\<rparr>))"
    by (rule applyCDNSettings_nil_policy [OF assms]) (simp add: emptyBackendService_def)
  show ?thesis
  proof (cases "cdnWritesNeedPolicy c")
    case True
    then show ?thesis using assms t by (simp add: EnsureCDN_def andThen_def)
  next
    case False
    have "applyCDNSettings sp be = Inr (be\<lparr>EnableCDN := Enabled c\<rparr>)"
    proof (cases "CdnPolicy be")
      case None
      then show ?thesis using applyCDNSettings_nil_policy [OF assms None] False by simp
    next
      case (Some p)
      then show ?thesis
        using applyCDNSettings_keep_policy [OF assms Some] withOptionalSettings_none [OF False, of p]
        by simp
    qed
    then show ?thesis using assms t False
      by (simp add: EnsureCDN_def andThen_def emptyBackendService_def)
  qed
qed

text \<open>
  The decision of \<^verbatim>\<open>EnsureCDN\<close> whenever it returns: with the desired settings
  computed on an empty backend service, it reports a change and applies them exactly when
  the desired \<^verbatim>\<open>EnableCDN\<close> differs from the current one, or a desired CDN policy is
  specified and differs from the current one.
\<close>

lemma EnsureCDN_decision:
  assumes "applyCDNSettings sp (emptyBackendService :: ('b::zero, 'p::zero, 'k::zero) BackendService)
             = Inr beTemp"
    and "applyCDNSettings sp be = Inr applied"
    and "Cdn (Spec (BackendConfig sp)) \<noteq> None"
  shows "EnsureCDN sp (be :: ('b, 'p, 'k) BackendService) =
     (if EnableCDN beTemp \<noteq> EnableCDN be
         \<or> (CdnPolicy beTemp \<noteq> None \<and> CdnPolicy beTemp \<noteq> CdnPolicy be)
      then Inr (True, applied) else Inr (False, be))"
  using assms by (auto simp add: EnsureCDN_def andThen_def)

section \<open>Claims about the CDN settings\<close>

text \<open>
  C2, as it stands, fails: with a cache policy in the configuration and no cache mode,
  \<^verbatim>\<open>applyCDNSettings\<close> replaces the whole CDN policy of the backend service by a fresh
  one, so a cache mode that the backend service had, and that the configuration does not
  mention, is cleared.
\<close>

theorem applyCDNSettings_clears_cache_mode:
  "CDNConfig.CacheMode cdnCachePolicyOnly = None
   \<and> (case applyCDNSettings (servicePortWith cdnCachePolicyOnly) backendForceCacheAll of
        Inl e \<Rightarrow> False
      | Inr be' \<Rightarrow> map_option CacheMode (CdnPolicy be')
                     \<noteq> map_option CacheMode (CdnPolicy backendForceCacheAll))"
  by (simp add: cdn_examples applyCDNSettings_def andThen_def newCdnPolicy_def Let_def)

text \<open>
  C2, amended: for a ServicePort with a CDN section, and unless the call dereferences a nil
  CDN policy (no cache policy in the configuration, no CDN policy on the backend service,
  and one of the three optional settings present), \<^verbatim>\<open>applyCDNSettings\<close> returns the
  backend service with \<^verbatim>\<open>EnableCDN\<close> set from the configuration and with the CDN policy
  obtained as follows: a fresh policy whose cache key policy holds the five cache key
  fields of the configuration (include host, include protocol, include query string, query
  string blacklist and whitelist) and whose every other field is at its zero value, when
  the configuration has a cache policy; the old policy otherwise; then \<^verbatim>\<open>CacheMode\<close>, \<^verbatim>\<open>RequestCoalescing\<close> and
  \<^verbatim>\<open>ServeWhileStale\<close> overwritten where the configuration has them. Every other field
  of the backend service is unchanged.
\<close>

theorem applyCDNSettings_frame:
  assumes cdn: "Cdn (Spec (BackendConfig sp)) = Some c"
    and ok: "CachePolicy c \<noteq> None \<or> CdnPolicy be \<noteq> None \<or> \<not> cdnWritesNeedPolicy c"
  shows "applyCDNSettings sp be =
     Inr (be\<lparr>EnableCDN := Enabled c,
             CdnPolicy := map_option (withOptionalSettings c)
               (case CachePolicy c of
                  None \<Rightarrow> CdnPolicy be
                | Some k \<Rightarrow>
                    Some \<lparr>CacheKeyPolicy = Some
                            \<lparr>IncludeHost = CacheKeyPolicyConfig.IncludeHost k,
                             IncludeProtocol = CacheKeyPolicyConfig.IncludeProtocol k,
                             IncludeQueryString = CacheKeyPolicyConfig.IncludeQueryString k,
                             QueryStringBlacklist = CacheKeyPolicyConfig.QueryStringBlacklist k,
                             QueryStringWhitelist = CacheKeyPolicyConfig.QueryStringWhitelist k,
                             ckpOther = 0\<rparr>,
                          CacheMode = [], RequestCoalescing = False, ServeWhileStale = 0,
                          cdnOther = 0\<rparr>)\<rparr>)"
proof (cases "CachePolicy c")
  case (Some k)
  then show ?thesis
    using applyCDNSettings_some_policy [OF cdn Some, of be] by (simp add: newCdnPolicy_def)
next
  case None
  show ?thesis
  proof (cases "CdnPolicy be")
    case (Some p)
    then show ?thesis using applyCDNSettings_keep_policy [OF cdn None Some] None by simp
  next
    case nil: None
    then show ?thesis using applyCDNSettings_nil_policy [OF cdn None nil] None ok by simp
  qed
qed

theorem applyCDNSettings_frame_witness:
  "applyCDNSettings (servicePortWith cdnCachePolicyOnly) backendForceCacheAll =
     Inr \<lparr>BackendService.Name = ''be-1'', Scope = Global, BackendService.Version = VersionGA,
          EnableCDN = True,
          CdnPolicy = Some
            \<lparr>CacheKeyPolicy = Some
               \<lparr>IncludeHost = True, IncludeProtocol = True, IncludeQueryString = False,
                QueryStringBlacklist = None, QueryStringWhitelist = Some [''lang''],
                ckpOther = 0\<rparr>,
             CacheMode = [], RequestCoalescing = False, ServeWhileStale = 0, cdnOther = 0\<rparr>,
          beOther = 1\<rparr>"
  using applyCDNSettings_frame [of "servicePortWith cdnCachePolicyOnly" cdnCachePolicyOnly
      backendForceCacheAll]
  by (simp add: cdn_examples withOptionalSettings_def)

text \<open>
  C3: \<^verbatim>\<open>EnsureCDN\<close> is claimed to return true or false for every ServicePort. With a
  cache mode but no cache policy in the configuration it returns nothing: the settings are
  first applied to an empty backend service, whose CDN policy is nil, and the write of the
  cache mode panics.
\<close>

theorem EnsureCDN_panics_on_cache_mode_without_cache_policy:
  "EnsureCDN (servicePortWith cdnCacheModeOnly) backendForceCacheAll = Inl NilPointerDereference"
  by (simp add: cdn_examples EnsureCDN_def applyCDNSettings_def andThen_def writeCdnPolicy_def emptyBackendService_def Let_def)

text \<open>
  C8: for a ServicePort with a CDN section, \<^verbatim>\<open>EnsureCDN\<close> panics with a nil dereference
  when the configuration has no cache policy and at least one of cache mode, request
  coalescing and serve-while-stale; when it has a cache policy, or none of the three, it
  returns.
\<close>

theorem EnsureCDN_faults_exactly:
  assumes "Cdn (Spec (BackendConfig sp)) = Some c"
  shows "(CachePolicy c = None \<and> cdnWritesNeedPolicy c \<longrightarrow>
            EnsureCDN sp be = Inl NilPointerDereference)
       \<and> (CachePolicy c \<noteq> None \<or> \<not> cdnWritesNeedPolicy c \<longrightarrow>
            (\<exists>changed be'. EnsureCDN sp be = Inr (changed, be')))"
proof (cases "CachePolicy c")
  case None
  then show ?thesis using EnsureCDN_nil_policy [OF assms None, of be] by auto
next
  case (Some k)
  then show ?thesis using EnsureCDN_some_policy [OF assms Some, of be] by auto
qed

theorem EnsureCDN_faults_exactly_witness:
  "EnsureCDN (servicePortWith cdnCacheModeOnly) (emptyBackendService :: (nat, nat, nat) BackendService) = Inl NilPointerDereference
   \<and> (\<exists>changed be'. EnsureCDN (servicePortWith cdnCachePolicyOnly) backendForceCacheAll = Inr (changed, be'))"
  using EnsureCDN_faults_exactly [of "servicePortWith cdnCacheModeOnly" cdnCacheModeOnly "emptyBackendService :: (nat, nat, nat) BackendService"]
    EnsureCDN_faults_exactly [of "servicePortWith cdnCachePolicyOnly" cdnCachePolicyOnly backendForceCacheAll]
  by (simp add: cdn_examples cdnWritesNeedPolicy_def)

text \<open>
  C9: under the no-fault precondition \<^verbatim>\<open>EnsureCDN\<close> returns; when it returns false the
  backend service is unchanged; and after a call that returned true, a second call on the
  resulting backend service returns false and leaves it unchanged.
\<close>

theorem EnsureCDN_idempotent:
  assumes "noFaultPrecondition sp"
  shows "\<exists>changed be'. EnsureCDN sp be = Inr (changed, be')
           \<and> (\<not> changed \<longrightarrow> be' = be)
           \<and> (changed \<longrightarrow> EnsureCDN sp be' = Inr (False, be'))"
proof (cases "Cdn (Spec (BackendConfig sp))")
  case None
  then have "EnsureCDN sp be = Inr (False, be)" by (rule EnsureCDN_no_cdn)
  then show ?thesis by auto
next
  case (Some c)
  show ?thesis
  proof (cases "CachePolicy c")
    case None
    then have quiet: "\<not> cdnWritesNeedPolicy c"
      using assms Some by (simp add: noFaultPrecondition_def)
    have call: "EnsureCDN sp b =
        (if Enabled c \<noteq> EnableCDN b then Inr (True, b\<lparr>EnableCDN := Enabled c\<rparr>)
         else Inr (False, b))" for b :: "('a, 'b, 'c) BackendService"
      using EnsureCDN_nil_policy [OF Some None, of b] quiet by simp
    show ?thesis
    proof (cases "Enabled c = EnableCDN be")
      case True
      then have "EnsureCDN sp be = Inr (False, be)" using call [of be] by simp
      then show ?thesis by auto
    next
      case False
      let ?be' = "be\<lparr>EnableCDN := Enabled c\<rparr>"
      have "EnsureCDN sp be = Inr (True, ?be')" using call [of be] False by simp
      moreover have "EnsureCDN sp ?be' = Inr (False, ?be')" using call [of ?be'] by simp
      ultimately show ?thesis by auto
    qed
  next
    case k: (Some k)
    let ?d = "withOptionalSettings c (newCdnPolicy k) :: ('b, 'c) BackendServiceCdnPolicy"
    have call: "EnsureCDN sp b =
        (if Some ?d \<noteq> CdnPolicy b \<or> Enabled c \<noteq> EnableCDN b
         then Inr (True, b\<lparr>EnableCDN := Enabled c, CdnPolicy := Some ?d\<rparr>)
         else Inr (False, b))" for b :: "('a, 'b, 'c) BackendService"
      by (rule EnsureCDN_some_policy [OF Some k])
    show ?thesis
    proof (cases "Some ?d \<noteq> CdnPolicy be \<or> Enabled c \<noteq> EnableCDN be")
      case False
      then have "EnsureCDN sp be = Inr (False, be)" using call [of be] by simp
      then show ?thesis by auto
    next
      case True
      let ?be' = "be\<lparr>EnableCDN := Enabled c, CdnPolicy := Some ?d\<rparr>"
      have "EnsureCDN sp be = Inr (True, ?be')" using call [of be] True by simp
      moreover have "EnsureCDN sp ?be' = Inr (False, ?be')" using call [of ?be'] by simp
      ultimately show ?thesis by auto
    qed
  qed
qed

theorem EnsureCDN_idempotent_witness:
  "EnsureCDN (servicePortWith cdnCachePolicyOnly) backendForceCacheAll =
     Inr (True, backendForceCacheAll\<lparr>CdnPolicy := Some (newCdnPolicy cachePolicyExample)\<rparr>)
   \<and> EnsureCDN (servicePortWith cdnCachePolicyOnly)
        (backendForceCacheAll\<lparr>CdnPolicy := Some (newCdnPolicy cachePolicyExample)\<rparr>) =
     Inr (False, backendForceCacheAll\<lparr>CdnPolicy := Some (newCdnPolicy cachePolicyExample)\<rparr>)"
proof -
  have pre: "noFaultPrecondition (servicePortWith cdnCachePolicyOnly)"
    by (simp add: noFaultPrecondition_def cdn_examples)
  have first: "EnsureCDN (servicePortWith cdnCachePolicyOnly) backendForceCacheAll =
     Inr (True, backendForceCacheAll\<lparr>CdnPolicy := Some (newCdnPolicy cachePolicyExample)\<rparr>)"
    by (simp add: cdn_examples EnsureCDN_def applyCDNSettings_def andThen_def
        emptyBackendService_def newCdnPolicy_def Let_def)
  obtain changed be' where
    r: "EnsureCDN (servicePortWith cdnCachePolicyOnly) backendForceCacheAll = Inr (changed, be')"
    and again: "changed \<longrightarrow> EnsureCDN (servicePortWith cdnCachePolicyOnly) be' = Inr (False, be')"
    using EnsureCDN_idempotent [OF pre, of backendForceCacheAll] by blast
  from r first have "changed" and "be' = backendForceCacheAll\<lparr>CdnPolicy := Some (newCdnPolicy cachePolicyExample)\<rparr>"
    by simp_all
  with again first show ?thesis by simp
qed


section \<open>What the wrappers call\<close>

text \<open>
  Each wrapper in closed form: the switch over the version and the key's type collapses to
  one call on the client that \<open>clientFor\<close> names. The signed-URL-key operations make
  the same calls whatever the version and the scope.
\<close>

lemma Type_set_name [simp]: "Type (key\<lparr>Key.Name := n\<rparr>) = Type key"
  by (simp add: Type_def)

lemma versions_distinct [simp]:
  "VersionAlpha \<noteq> VersionBeta" "VersionBeta \<noteq> VersionAlpha"
  by (simp_all add: version_defs)

lemma SetUrlMapForTargetHttpsProxy_dispatch:
  "SetUrlMapForTargetHttpsProxy g key p link =
     observedCall g
       (clientFor TargetHttpsProxyResource (versionOf (TargetHttpsProxy.Version p)) (regional key))
       SetUrlMap (key\<lparr>Key.Name := TargetHttpsProxy.Name p\<rparr>)
       (Some (UrlMapReference (versionOf (TargetHttpsProxy.Version p)) link))"
  by (simp add: SetUrlMapForTargetHttpsProxy_def versionOf_def regional_def Let_def)

lemma SetSslCertificateForTargetHttpsProxy_dispatch:
  "SetSslCertificateForTargetHttpsProxy g key p urls =
     observedCall g
       (clientFor TargetHttpsProxyResource (versionOf (TargetHttpsProxy.Version p)) (regional key))
       SetSslCertificates (key\<lparr>Key.Name := TargetHttpsProxy.Name p\<rparr>)
       (Some (sslCertificatesRequest (versionOf (TargetHttpsProxy.Version p)) (regional key) urls))"
  by (simp add: SetSslCertificateForTargetHttpsProxy_def versionOf_def regional_def Let_def
      sslCertificatesRequest_def)

lemma SetUrlMapForTargetHttpProxy_dispatch:
  "SetUrlMapForTargetHttpProxy g key p link =
     observedCall g
       (clientFor TargetHttpProxyResource (versionOf (TargetHttpProxy.Version p)) (regional key))
       SetUrlMap (key\<lparr>Key.Name := TargetHttpProxy.Name p\<rparr>)
       (Some (UrlMapReference (versionOf (TargetHttpProxy.Version p)) link))"
  by (simp add: SetUrlMapForTargetHttpProxy_def versionOf_def regional_def Let_def)

lemma SetProxyForForwardingRule_dispatch:
  "SetProxyForForwardingRule g key r link =
     observedCall g
       (clientFor ForwardingRuleResource (versionOf (ForwardingRule.Version r)) (regional key))
       SetTarget (key\<lparr>Key.Name := ForwardingRule.Name r\<rparr>)
       (Some (TargetReference (versionOf (ForwardingRule.Version r)) link))"
  by (simp add: SetProxyForForwardingRule_def versionOf_def regional_def Let_def)

lemma SetSslPolicyForTargetHttpsProxy_dispatch:
  "SetSslPolicyForTargetHttpsProxy g key p link =
     (if Type key = Regional then ([], Some regionalSslPolicyError)
      else observedCall g
       (clientFor TargetHttpsProxyResource (versionOf (TargetHttpsProxy.Version p)) False)
       SetSslPolicy (key\<lparr>Key.Name := TargetHttpsProxy.Name p\<rparr>)
       (Some (SslPolicyReference (versionOf (TargetHttpsProxy.Version p)) link)))"
  by (simp add: SetSslPolicyForTargetHttpsProxy_def versionOf_def Let_def)

lemma SetSecurityPolicy_dispatch:
  "SetSecurityPolicy g be pol =
     (if Scope be \<noteq> Global
      then ([], Some (unsupportedScopeError (Scope be) (BackendService.Name be)))
      else observedCall g
        (clientFor BackendServiceResource (versionOf (BackendService.Version be)) False)
        SetSecurityPolicyMethod (GlobalKey (BackendService.Name be))
        (if pol \<noteq> []
         then Some (SecurityPolicyReference (versionOf (BackendService.Version be))
                (SelfLink g (if BackendService.Version be = VersionAlpha then VersionAlpha
                             else if BackendService.Version be = VersionBeta then VersionBeta
                             else VersionGA)
                   (cloudProjectID g) ''securityPolicies'' (GlobalKey pol)))
         else None))"
  by (simp add: SetSecurityPolicy_def versionOf_def Let_def)

lemma AddSignedUrlKey_any_version:
  "AddSignedUrlKey g key be k =
     (case convert g (versionOf (BackendService.Version be)) k of
        Inl err \<Rightarrow> ([], Some err)
      | Inr converted \<Rightarrow> gceBackendServices_AddSignedUrlKey g key k)"
  by (simp add: AddSignedUrlKey_def versionOf_def hackGceCloud_def observed_def Observe_def
      split: sum.splits)

lemma DeleteSignedUrlKey_any_version:
  "DeleteSignedUrlKey g key be keyName = gceBackendServices_DeleteSignedUrlKey g key keyName"
  by (simp add: DeleteSignedUrlKey_def hackGceCloud_def observed_def Observe_def)


lemma passesThrough_observedCall: "passesThrough g (observedCall g s m key arg)"
  by (simp add: passesThrough_def observedCall_def Observe_def)

lemma gce_Add_outcome:
  "(if isl (convert g GA k) \<or> \<not> Valid g key
    then ownError (gceBackendServices_AddSignedUrlKey g key k)
    else passesThrough g (gceBackendServices_AddSignedUrlKey g key k))"
  by (simp add: gceBackendServices_AddSignedUrlKey_def ownError_def passesThrough_def Let_def
      split: sum.splits option.splits)

lemma gce_Delete_outcome:
  "(if \<not> Valid g key
    then ownError (gceBackendServices_DeleteSignedUrlKey g key n)
    else passesThrough g (gceBackendServices_DeleteSignedUrlKey g key n))"
  by (simp add: gceBackendServices_DeleteSignedUrlKey_def ownError_def passesThrough_def Let_def
      split: sum.splits option.splits)

lemma Add_outcome:
  "(if isl (convert g (versionOf (BackendService.Version be)) k) \<or> isl (convert g GA k)
       \<or> \<not> Valid g key
    then ownError (AddSignedUrlKey g key be k)
    else passesThrough g (AddSignedUrlKey g key be k))"
proof (cases "convert g (versionOf (BackendService.Version be)) k")
  case (Inl err)
  then show ?thesis by (simp add: AddSignedUrlKey_any_version ownError_def)
next
  case (Inr converted)
  then show ?thesis using gce_Add_outcome [of g k key]
    by (simp add: AddSignedUrlKey_any_version)
qed





section \<open>Claims about the wrappers\<close>

text \<open>
  C4: \<^verbatim>\<open>AddSignedUrlKey\<close> is claimed to call the client of the backend service's version
  and of the key's scope. For an alpha backend service and a regional key that client is
  \<open>AlphaRegionBackendServices\<close>; the code accepts the rate limiter for the GA
  \<^verbatim>\<open>BackendServices\<close>, does the raw GA call for a global backend service and waits for
  its operation.
\<close>

theorem AddSignedUrlKey_alpha_regional_calls_GA_global:
  "AddSignedUrlKey cloudAllSucceed regionalKey alphaRegionalBackend signedUrlKeyExample =
     ([RateLimiterAccept \<lparr>ProjectID = ''my-project'', Operation = ''AddSignedUrlKey'',
                           RateLimitKey.Version = ''ga'', Service = ''BackendServices''\<rparr>,
       Do (GA_BackendServices_AddSignedUrlKey ''my-project'' ''bs-1''
             (ComputeSignedUrlKey GA ''key-1'' ''c2VjcmV0'')),
       WaitForCompletion ''operation-1''], None)
   \<and> clientFor BackendServiceResource (versionOf (BackendService.Version alphaRegionalBackend))
        (regional regionalKey) = AlphaRegionBackendServices"
  by (simp add: AddSignedUrlKey_def gceBackendServices_AddSignedUrlKey_def hackGceCloud_def
      observed_def Observe_def cloud_examples version_defs keytype_defs Type_def Let_def
      versionOf_def regional_def)

text \<open>
  C5, as it stands, fails: in a cloud where every SDK call succeeds,
  \<^verbatim>\<open>SetSecurityPolicy\<close> on a regional backend service issues no call and returns an
  error that it formats itself.
\<close>

theorem SetSecurityPolicy_makes_its_own_error:
  "SetSecurityPolicy cloudAllSucceed alphaRegionalBackend ''policy-1'' =
     ([], Some ''cloud armor security policies not supported for regional backend service bs-1'')"
  by (simp add: SetSecurityPolicy_def unsupportedScopeError_def cloud_examples keytype_defs Let_def)

text \<open>
  C5, amended: whenever a wrapper issues a call, the error it returns is the error of the
  last call it issued (nil exactly when that call succeeded). The four proxy and
  forwarding-rule setters always issue a call. A wrapper issues no call and returns an
  error of its own exactly in these cases: \<^verbatim>\<open>SetSslPolicyForTargetHttpsProxy\<close> on a
  regional key, \<^verbatim>\<open>SetSecurityPolicy\<close> on a backend service that is not global,
  \<^verbatim>\<open>AddSignedUrlKey\<close> when a conversion of the key fails or the key is invalid, and
  \<^verbatim>\<open>DeleteSignedUrlKey\<close> when the key is invalid.
\<close>

theorem wrappers_pass_errors_through_or_reject:
  "passesThrough g (SetUrlMapForTargetHttpsProxy g key thp link)
   \<and> passesThrough g (SetSslCertificateForTargetHttpsProxy g key thp urls)
   \<and> passesThrough g (SetUrlMapForTargetHttpProxy g key hp link)
   \<and> passesThrough g (SetProxyForForwardingRule g key fr link)
   \<and> (if Type key = Regional
       then ownError (SetSslPolicyForTargetHttpsProxy g key thp link)
       else passesThrough g (SetSslPolicyForTargetHttpsProxy g key thp link))
   \<and> (if Scope be \<noteq> Global
       then ownError (SetSecurityPolicy g be pol)
       else passesThrough g (SetSecurityPolicy g be pol))
   \<and> (if isl (convert g (versionOf (BackendService.Version be)) k) \<or> isl (convert g GA k)
          \<or> \<not> Valid g key
       then ownError (AddSignedUrlKey g key be k)
       else passesThrough g (AddSignedUrlKey g key be k))
   \<and> (if \<not> Valid g key
       then ownError (DeleteSignedUrlKey g key be keyName)
       else passesThrough g (DeleteSignedUrlKey g key be keyName))"
proof -
  have 1: "passesThrough g (SetUrlMapForTargetHttpsProxy g key thp link)"
    by (simp only: SetUrlMapForTargetHttpsProxy_dispatch passesThrough_observedCall)
  have 2: "passesThrough g (SetSslCertificateForTargetHttpsProxy g key thp urls)"
    by (simp only: SetSslCertificateForTargetHttpsProxy_dispatch passesThrough_observedCall)
  have 3: "passesThrough g (SetUrlMapForTargetHttpProxy g key hp link)"
    by (simp only: SetUrlMapForTargetHttpProxy_dispatch passesThrough_observedCall)
  have 4: "passesThrough g (SetProxyForForwardingRule g key fr link)"
    by (simp only: SetProxyForForwardingRule_dispatch passesThrough_observedCall)
  have 5: "if Type key = Regional
       then ownError (SetSslPolicyForTargetHttpsProxy g key thp link)
       else passesThrough g (SetSslPolicyForTargetHttpsProxy g key thp link)"
    by (simp add: SetSslPolicyForTargetHttpsProxy_dispatch passesThrough_observedCall ownError_def)
  have 6: "if Scope be \<noteq> Global
       then ownError (SetSecurityPolicy g be pol)
       else passesThrough g (SetSecurityPolicy g be pol)"
    by (simp add: SetSecurityPolicy_dispatch passesThrough_observedCall ownError_def)
  have 8: "if \<not> Valid g key
       then ownError (DeleteSignedUrlKey g key be keyName)
       else passesThrough g (DeleteSignedUrlKey g key be keyName)"
    using gce_Delete_outcome [of g key keyName] by (simp only: DeleteSignedUrlKey_any_version)
  from 1 2 3 4 5 6 Add_outcome [of g be k key] 8 show ?thesis by blast
qed

theorem wrappers_pass_errors_through_or_reject_witness:
  "passesThrough cloudAllSucceed
     (SetUrlMapForTargetHttpsProxy cloudAllSucceed regionalKey
        \<lparr>TargetHttpsProxy.Name = ''proxy-1'', TargetHttpsProxy.Version = VersionBeta\<rparr> ''url-map-1'')
   \<and> ownError (SetSecurityPolicy cloudAllSucceed alphaRegionalBackend ''policy-1'')
   \<and> passesThrough cloudAllSucceed
       (AddSignedUrlKey cloudAllSucceed regionalKey alphaRegionalBackend signedUrlKeyExample)"
  using wrappers_pass_errors_through_or_reject [of cloudAllSucceed regionalKey
      "\<lparr>TargetHttpsProxy.Name = ''proxy-1'', TargetHttpsProxy.Version = VersionBeta\<rparr>" "''url-map-1''"
      "[]" "\<lparr>TargetHttpProxy.Name = ''proxy-2'', TargetHttpProxy.Version = VersionGA\<rparr>"
      "\<lparr>ForwardingRule.Name = ''rule-1'', ForwardingRule.Version = VersionGA\<rparr>"
      alphaRegionalBackend "''policy-1''" signedUrlKeyExample "''key-1''"]
  by (simp add: cloud_examples keytype_defs version_defs versionOf_def)

text \<open>
  C6: each of \<^verbatim>\<open>SetUrlMapForTargetHttpsProxy\<close>,
  \<^verbatim>\<open>SetSslCertificateForTargetHttpsProxy\<close>, \<^verbatim>\<open>SetUrlMapForTargetHttpProxy\<close> and
  \<^verbatim>\<open>SetProxyForForwardingRule\<close> issues exactly one call: the method on the generated
  client of the resource's version (alpha, beta, else GA) and of the key's scope (regional
  or not), with the key named after the resource and the link or certificate list wrapped
  in the request type of that version (and, for certificates, of that scope); it returns
  that call's error.
\<close>

theorem setters_dispatch_by_version_and_scope:
  "SetUrlMapForTargetHttpsProxy g key thp link =
     (let v = versionOf (TargetHttpsProxy.Version thp);
          client = clientFor TargetHttpsProxyResource v (regional key);
          named = key\<lparr>Key.Name := TargetHttpsProxy.Name thp\<rparr>;
          arg = Some (UrlMapReference v link)
      in ([ClientCall client SetUrlMap named arg], clientCall g client SetUrlMap named arg))
   \<and> SetSslCertificateForTargetHttpsProxy g key thp urls =
     (let v = versionOf (TargetHttpsProxy.Version thp);
          client = clientFor TargetHttpsProxyResource v (regional key);
          named = key\<lparr>Key.Name := TargetHttpsProxy.Name thp\<rparr>;
          arg = Some (sslCertificatesRequest v (regional key) urls)
      in ([ClientCall client SetSslCertificates named arg],
          clientCall g client SetSslCertificates named arg))
   \<and> SetUrlMapForTargetHttpProxy g key hp link =
     (let v = versionOf (TargetHttpProxy.Version hp);
          client = clientFor TargetHttpProxyResource v (regional key);
          named = key\<lparr>Key.Name := TargetHttpProxy.Name hp\<rparr>;
          arg = Some (UrlMapReference v link)
      in ([ClientCall client SetUrlMap named arg], clientCall g client SetUrlMap named arg))
   \<and> SetProxyForForwardingRule g key fr link =
     (let v = versionOf (ForwardingRule.Version fr);
          client = clientFor ForwardingRuleResource v (regional key);
          named = key\<lparr>Key.Name := ForwardingRule.Name fr\<rparr>;
          arg = Some (TargetReference v link)
      in ([ClientCall client SetTarget named arg], clientCall g client SetTarget named arg))"
  by (simp only: SetUrlMapForTargetHttpsProxy_dispatch SetSslCertificateForTargetHttpsProxy_dispatch
      SetUrlMapForTargetHttpProxy_dispatch SetProxyForForwardingRule_dispatch
      observedCall_def Observe_def Let_def simp_thms)

theorem setters_dispatch_by_version_and_scope_witness:
  "SetUrlMapForTargetHttpsProxy cloudAllSucceed regionalKey
      \<lparr>TargetHttpsProxy.Name = ''proxy-1'', TargetHttpsProxy.Version = VersionBeta\<rparr> ''url-map-1'' =
     ([ClientCall BetaRegionTargetHttpsProxies SetUrlMap
         \<lparr>Key.Name = ''proxy-1'', Zone = [], Region = ''us-central1''\<rparr>
         (Some (UrlMapReference Beta ''url-map-1''))], None)
   \<and> SetProxyForForwardingRule cloudAllSucceed (GlobalKey ''rule-1'')
      \<lparr>ForwardingRule.Name = ''rule-1'', ForwardingRule.Version = VersionGA\<rparr> ''proxy-1'' =
     ([ClientCall GlobalForwardingRules SetTarget (GlobalKey ''rule-1'')
         (Some (TargetReference GA ''proxy-1''))], None)"
  using setters_dispatch_by_version_and_scope [of cloudAllSucceed regionalKey
      "\<lparr>TargetHttpsProxy.Name = ''proxy-1'', TargetHttpsProxy.Version = VersionBeta\<rparr>" "''url-map-1''"
      "[]" "\<lparr>TargetHttpProxy.Name = ''proxy-2'', TargetHttpProxy.Version = VersionGA\<rparr>"
      "\<lparr>ForwardingRule.Name = ''rule-1'', ForwardingRule.Version = VersionGA\<rparr>"]
    setters_dispatch_by_version_and_scope [of cloudAllSucceed "GlobalKey ''rule-1''"
      "\<lparr>TargetHttpsProxy.Name = ''proxy-1'', TargetHttpsProxy.Version = VersionBeta\<rparr>" "''proxy-1''"
      "[]" "\<lparr>TargetHttpProxy.Name = ''proxy-2'', TargetHttpProxy.Version = VersionGA\<rparr>"
      "\<lparr>ForwardingRule.Name = ''rule-1'', ForwardingRule.Version = VersionGA\<rparr>"]
  by (simp add: cloud_examples keytype_defs version_defs versionOf_def regional_def Type_def
      GlobalKey_def Let_def)




section \<open>Claims about the metrics\<close>

text \<open>
  Registering states under distinct keys keeps them all, and counting them from any
  starting counts adds the tallies.
\<close>

lemma update_fresh: "k \<notin> fst ` set al \<Longrightarrow> AList.update k v al = al @ [(k, v)]"
  by (induction al) auto

lemma register_fresh:
  "distinct (map fst entries) \<Longrightarrow> fst ` set entries \<inter> fst ` set (l4ILBServiceMap im) = {} \<Longrightarrow>
   l4ILBServiceMap (fold (\<lambda>entry. SetL4ILBService (fst entry) (snd entry)) entries im)
     = l4ILBServiceMap im @ entries"
proof (induction entries arbitrary: im)
  case Nil
  then show ?case by simp
next
  case (Cons entry entries)
  let ?im = "SetL4ILBService (fst entry) (snd entry) im"
  have stored: "l4ILBServiceMap ?im = l4ILBServiceMap im @ [entry]"
    using Cons.prems(2) by (simp add: SetL4ILBService_def update_fresh)
  have "fst ` set entries \<inter> fst ` set (l4ILBServiceMap ?im) = {}"
    using Cons.prems stored by auto
  with Cons.IH [of ?im] Cons.prems(1) stored show ?case by simp
qed

lemma registerAll_map:
  "distinct (map fst entries) \<Longrightarrow> l4ILBServiceMap (registerAll entries) = entries"
  using register_fresh [of entries NewControllerMetrics]
  by (simp add: registerAll_def NewControllerMetrics_def)

lemma countService_at:
  assumes "c l4ILBService = Some a" "c l4ILBGlobalAccess = Some b" "c l4ILBCustomSubnet = Some d"
    "c l4ILBInSuccess = Some ok" "c l4ILBInError = Some bad"
  shows "countService st c l4ILBService = Some (a + 1)"
    and "countService st c l4ILBGlobalAccess =
           Some (b + (if InSuccess st \<and> EnabledGlobalAccess st then 1 else 0))"
    and "countService st c l4ILBCustomSubnet =
           Some (d + (if InSuccess st \<and> EnabledCustomSubnet st then 1 else 0))"
    and "countService st c l4ILBInSuccess = Some (ok + (if InSuccess st then 1 else 0))"
    and "countService st c l4ILBInError = Some (bad + (if InSuccess st then 0 else 1))"
  using assms by (simp_all add: countService_def increment_def Let_def)

lemma fold_countService:
  assumes "c l4ILBService = Some a" "c l4ILBGlobalAccess = Some b" "c l4ILBCustomSubnet = Some d"
    "c l4ILBInSuccess = Some ok" "c l4ILBInError = Some bad"
  shows "fold (\<lambda>entry. countService (snd entry)) entries c l4ILBService
           = Some (a + int (length entries))
       \<and> fold (\<lambda>entry. countService (snd entry)) entries c l4ILBGlobalAccess
           = Some (b + tally (\<lambda>st. InSuccess st \<and> EnabledGlobalAccess st) entries)
       \<and> fold (\<lambda>entry. countService (snd entry)) entries c l4ILBCustomSubnet
           = Some (d + tally (\<lambda>st. InSuccess st \<and> EnabledCustomSubnet st) entries)
       \<and> fold (\<lambda>entry. countService (snd entry)) entries c l4ILBInSuccess
           = Some (ok + tally InSuccess entries)
       \<and> fold (\<lambda>entry. countService (snd entry)) entries c l4ILBInError
           = Some (bad + tally (\<lambda>st. \<not> InSuccess st) entries)"
  using assms
proof (induction entries arbitrary: c a b d ok bad)
  case Nil
  then show ?case by (simp add: tally_def)
next
  case (Cons entry entries)
  note step = countService_at [OF Cons.prems, of "snd entry"]
  show ?case
    using Cons.IH [OF step] by (simp add: tally_def)
qed

text \<open>
  The model of \<^verbatim>\<open>computeL4ILBMetrics\<close> yields the expected map of each of the eight
  cases of \<^verbatim>\<open>TestComputeL4ILBMetrics\<close> (lines 41 to 150).
\<close>

lemma TestComputeL4ILBMetrics:
  "testGot [] = expectL4ILBCount 0 0 0 0 0"
  "testGot [newL4ILBServiceState False False True] = expectL4ILBCount 1 0 0 1 0"
  "testGot [newL4ILBServiceState False True False] = expectL4ILBCount 1 0 0 0 1"
  "testGot [newL4ILBServiceState True False True] = expectL4ILBCount 1 1 0 1 0"
  "testGot [newL4ILBServiceState False True True] = expectL4ILBCount 1 0 1 1 0"
  "testGot [newL4ILBServiceState True True True] = expectL4ILBCount 1 1 1 1 0"
  "testGot [newL4ILBServiceState False False True, newL4ILBServiceState False True True,
            newL4ILBServiceState True False True, newL4ILBServiceState True True True]
     = expectL4ILBCount 4 2 2 4 0"
  "testGot [newL4ILBServiceState False False True, newL4ILBServiceState False True False,
            newL4ILBServiceState False True True, newL4ILBServiceState True False True,
            newL4ILBServiceState True False False, newL4ILBServiceState True True True]
     = expectL4ILBCount 6 2 2 4 2"
  by (rule ext; simp add: testGot_def computeL4ILBMetrics_def NewControllerMetrics_def SetL4ILBService_def
      countService_def increment_def zeroCounts_def newL4ILBServiceState_def expectL4ILBCount_def Let_def
      split: feature.splits)+


text \<open>
  C1, as it stands, fails on the third case of the test (lines 66 to 76): one service in
  error with a custom subnet is registered, so one state has \<^verbatim>\<open>EnabledCustomSubnet\<close>
  true, and the count expected for \<^verbatim>\<open>l4ILBCustomSubnet\<close> is 0.
\<close>

theorem custom_subnet_of_service_in_error_is_not_counted:
  "testGot [newL4ILBServiceState False True False] l4ILBCustomSubnet = Some 0
   \<and> length (filter EnabledCustomSubnet [newL4ILBServiceState False True False]) = 1"
  by (simp add: testGot_def computeL4ILBMetrics_def NewControllerMetrics_def SetL4ILBService_def
      countService_def increment_def zeroCounts_def newL4ILBServiceState_def Let_def)

text \<open>
  C1, amended: for states registered under distinct keys, \<^verbatim>\<open>computeL4ILBMetrics\<close>
  returns a map with exactly the five features; \<^verbatim>\<open>l4ILBService\<close> is the number of
  registered states, \<^verbatim>\<open>l4ILBInSuccess\<close> the number with \<^verbatim>\<open>InSuccess\<close> true,
  \<^verbatim>\<open>l4ILBInError\<close> the number with \<^verbatim>\<open>InSuccess\<close> false,
  \<^verbatim>\<open>l4ILBGlobalAccess\<close> the number with \<^verbatim>\<open>InSuccess\<close> and
  \<^verbatim>\<open>EnabledGlobalAccess\<close> both true, and \<^verbatim>\<open>l4ILBCustomSubnet\<close> the number with
  \<^verbatim>\<open>InSuccess\<close> and \<^verbatim>\<open>EnabledCustomSubnet\<close> both true; on the empty collection
  all five counts are 0.
\<close>

theorem computeL4ILBMetrics_tallies:
  assumes "distinct (map fst entries)"
  shows "dom (computeL4ILBMetrics (registerAll entries)) =
           {l4ILBService, l4ILBGlobalAccess, l4ILBCustomSubnet, l4ILBInSuccess, l4ILBInError}
       \<and> computeL4ILBMetrics (registerAll entries) l4ILBService = Some (int (length entries))
       \<and> computeL4ILBMetrics (registerAll entries) l4ILBGlobalAccess
           = Some (tally (\<lambda>st. InSuccess st \<and> EnabledGlobalAccess st) entries)
       \<and> computeL4ILBMetrics (registerAll entries) l4ILBCustomSubnet
           = Some (tally (\<lambda>st. InSuccess st \<and> EnabledCustomSubnet st) entries)
       \<and> computeL4ILBMetrics (registerAll entries) l4ILBInSuccess = Some (tally InSuccess entries)
       \<and> computeL4ILBMetrics (registerAll entries) l4ILBInError
           = Some (tally (\<lambda>st. \<not> InSuccess st) entries)
       \<and> computeL4ILBMetrics (registerAll []) = expectL4ILBCount 0 0 0 0 0"
proof -
  let ?got = "computeL4ILBMetrics (registerAll entries)"
  have got: "?got = fold (\<lambda>entry. countService (snd entry)) entries zeroCounts"
    by (simp add: computeL4ILBMetrics_def registerAll_map [OF assms])
  note counts = fold_countService [of zeroCounts 0 0 0 0 0 entries, folded got]
  have tallies: "?got l4ILBService = Some (int (length entries))"
    "?got l4ILBGlobalAccess = Some (tally (\<lambda>st. InSuccess st \<and> EnabledGlobalAccess st) entries)"
    "?got l4ILBCustomSubnet = Some (tally (\<lambda>st. InSuccess st \<and> EnabledCustomSubnet st) entries)"
    "?got l4ILBInSuccess = Some (tally InSuccess entries)"
    "?got l4ILBInError = Some (tally (\<lambda>st. \<not> InSuccess st) entries)"
    using counts by (simp_all add: zeroCounts_def)
  have "f \<in> dom ?got" for f
    using tallies by (cases f) auto
  then have "dom ?got = UNIV" by auto
  moreover have "(UNIV :: feature set) =
      {l4ILBService, l4ILBGlobalAccess, l4ILBCustomSubnet, l4ILBInSuccess, l4ILBInError}"
    using feature.exhaust by auto
  moreover have "computeL4ILBMetrics (registerAll []) = expectL4ILBCount 0 0 0 0 0"
    by (simp add: computeL4ILBMetrics_def registerAll_def NewControllerMetrics_def
        zeroCounts_def expectL4ILBCount_def)
  ultimately show ?thesis using tallies by simp
qed

theorem computeL4ILBMetrics_tallies_witness:
  "computeL4ILBMetrics (registerAll entriesOneInError) l4ILBService = Some 2
   \<and> computeL4ILBMetrics (registerAll entriesOneInError) l4ILBGlobalAccess = Some 1
   \<and> computeL4ILBMetrics (registerAll entriesOneInError) l4ILBCustomSubnet = Some 0
   \<and> computeL4ILBMetrics (registerAll entriesOneInError) l4ILBInSuccess = Some 1
   \<and> computeL4ILBMetrics (registerAll entriesOneInError) l4ILBInError = Some 1"
  using computeL4ILBMetrics_tallies [of entriesOneInError]
  by (simp add: entriesOneInError_def newL4ILBServiceState_def tally_def)

section \<open>Claim about the sandbox\<close>

text \<open>
  C10: when the creation of the namespace fails with an error whose message ends in
  "already exists", \<^verbatim>\<open>Ensure\<close> goes on to build the validator environment and returns
  what that returns, nil when it is built; on any other creation error it returns that
  error and does not build the validator environment.
\<close>

theorem Ensure_tolerates_existing_namespace:
  "(createNamespace f (Namespace s) = Some e \<and> HasSuffix e ''already exists'' \<longrightarrow>
      Ensure f s = (s\<lparr>ValidatorEnv := fst (NewDefaultValidatorEnv f (Namespace s))\<rparr>,
                    [CreateNamespace (Namespace s), BuildValidatorEnv (Namespace s)],
                    snd (NewDefaultValidatorEnv f (Namespace s))))
   \<and> (createNamespace f (Namespace s) = Some e \<and> HasSuffix e ''already exists''
      \<and> NewDefaultValidatorEnv f (Namespace s) = (env, None) \<longrightarrow>
      Ensure f s = (s\<lparr>ValidatorEnv := env\<rparr>,
                    [CreateNamespace (Namespace s), BuildValidatorEnv (Namespace s)], None))
   \<and> (createNamespace f (Namespace s) = Some e \<and> \<not> HasSuffix e ''already exists'' \<longrightarrow>
      Ensure f s = (s, [CreateNamespace (Namespace s)], Some e))"
  by (simp add: Ensure_def Let_def)

theorem Ensure_tolerates_existing_namespace_witness:
  "Ensure frameworkNamespaceExists sandboxExample =
     (sandboxExample\<lparr>ValidatorEnv := Some 1\<rparr>,
      [CreateNamespace ''test-sandbox'', BuildValidatorEnv ''test-sandbox''], None)
   \<and> Ensure frameworkForbidden sandboxExample =
     (sandboxExample, [CreateNamespace ''test-sandbox''], Some ''namespaces is forbidden'')"
  using Ensure_tolerates_existing_namespace [of frameworkNamespaceExists sandboxExample
      "''namespaces \"test-sandbox\" already exists''" "Some 1"]
    Ensure_tolerates_existing_namespace [of frameworkForbidden sandboxExample
      "''namespaces is forbidden''" "Some 1"]
  by (simp add: frameworkNamespaceExists_def frameworkForbidden_def sandboxExample_def HasSuffix_def)


end
